theory Spec2Isabelle
  imports Complex_Main "HOL-Library.Word" "HOL-Library.Mapping"
begin

unbundle bit_operations_syntax

section \<open>Theme loading of EmulationStation (ThemeData.cpp, ThemeData.h)\<close>

text \<open>
  A shallow embedding of \<^verbatim>\<open>ThemeData::loadFile\<close>, \<^verbatim>\<open>ThemeData::parseView\<close>,
  \<^verbatim>\<open>ThemeData::parseElement\<close>, \<^verbatim>\<open>getHexColor\<close> and \<^verbatim>\<open>resolvePath\<close>.
  A call either returns, throws a \<^verbatim>\<open>ThemeException\<close>, or has no defined behaviour;
  the members of \<^verbatim>\<open>ThemeData\<close> that \<^verbatim>\<open>loadFile\<close> writes are threaded through as a record,
  so that what a throwing call leaves behind is visible.
\<close>

subsection \<open>Values of type float\<close>

text \<open>
  \<^verbatim>\<open>float\<close> values: a finite value (kept as the rational it denotes), the two infinities, or
  a NaN. Comparisons follow IEEE 754: a NaN is neither equal to nor smaller than anything.
  Which float a text denotes is decided by the C library (\<^verbatim>\<open>strtod\<close>), a parameter below.
\<close>

datatype cfloat = Fin rat | PInf | NInf | NaN

fun float_eq :: "cfloat \<Rightarrow> cfloat \<Rightarrow> bool" where
  "float_eq (Fin a) (Fin b) = (a = b)"
| "float_eq PInf PInf = True"
| "float_eq NInf NInf = True"
| "float_eq _ _ = False"

fun float_lt :: "cfloat \<Rightarrow> cfloat \<Rightarrow> bool" where
  "float_lt (Fin a) (Fin b) = (a < b)"
| "float_lt (Fin a) PInf = True"
| "float_lt NInf (Fin b) = True"
| "float_lt NInf PInf = True"
| "float_lt _ _ = False"

subsection \<open>The document tree (pugixml)\<close>

text \<open>
  The two source files read the document through the pugixml library, whose code is not
  among them; its node type and the accessors they call are written here after the
  library's documented behaviour.

  A parsed document as pugixml presents it: an element node has a tag name, attributes in
  document order and child nodes; character data is a child node of its own, with an empty
  name and no attributes.
\<close>

datatype xml_node =
    Element string "(string \<times> string) list" "xml_node list"
  | PCData string

text \<open>\<^verbatim>\<open>xml_node::name()\<close>\<close>

fun node_name :: "xml_node \<Rightarrow> string" where
  "node_name (Element t as ks) = t"
| "node_name (PCData s) = []"

fun is_element :: "xml_node \<Rightarrow> bool" where
  "is_element (Element t as ks) = True"
| "is_element (PCData s) = False"

text \<open>\<^verbatim>\<open>xml_node::attribute(name)\<close>: the value of the first attribute of that name, if any.\<close>

fun attribute :: "xml_node \<Rightarrow> string \<Rightarrow> string option" where
  "attribute (Element t as ks) n = map_of as n"
| "attribute (PCData s) n = None"

text \<open>The nodes visited by \<^verbatim>\<open>first_child()\<close> and then \<^verbatim>\<open>next_sibling()\<close>.\<close>

fun children :: "xml_node \<Rightarrow> xml_node list" where
  "children (Element t as ks) = ks"
| "children (PCData s) = []"

text \<open>\<^verbatim>\<open>child(name)\<close>: the first child element with that tag.\<close>

definition child :: "xml_node list \<Rightarrow> string \<Rightarrow> xml_node option" where
  "child ks n = find (\<lambda>k. is_element k \<and> node_name k = n) ks"

text \<open>The nodes visited by \<^verbatim>\<open>child(name)\<close> and then \<^verbatim>\<open>next_sibling(name)\<close>.\<close>

definition children_named :: "xml_node list \<Rightarrow> string \<Rightarrow> xml_node list" where
  "children_named ks n = filter (\<lambda>k. is_element k \<and> node_name k = n) ks"

text \<open>
  \<^verbatim>\<open>xml_node::text()\<close>: the character data of the node itself, or of its first character-data
  child; \<open>None\<close> when there is none.
\<close>

fun text_data :: "xml_node \<Rightarrow> string option" where
  "text_data (PCData s) = Some s"
| "text_data (Element t as ks) =
     (case find (\<lambda>k. \<not> is_element k) ks of
        Some (PCData s) \<Rightarrow> Some s
      | _ \<Rightarrow> None)"

text \<open>\<^verbatim>\<open>xml_text::as_string()\<close>: the text, or the empty string; never a null pointer.\<close>

definition as_string :: "xml_node \<Rightarrow> string" where
  "as_string n = (case text_data n of None \<Rightarrow> [] | Some s \<Rightarrow> s)"

text \<open>pugixml reads a boolean off the first character: one of \<^verbatim>\<open>1 t T y Y\<close> is true.\<close>

definition get_value_bool :: "string \<Rightarrow> bool" where
  "get_value_bool s = (case s of [] \<Rightarrow> False | c # cs \<Rightarrow> c \<in> set ''1tTyY'')"

definition as_bool :: "xml_node \<Rightarrow> bool \<Rightarrow> bool" where
  "as_bool n def = (case text_data n of None \<Rightarrow> def | Some s \<Rightarrow> get_value_bool s)"

definition attribute_as_bool :: "xml_node \<Rightarrow> string \<Rightarrow> bool \<Rightarrow> bool" where
  "attribute_as_bool n a def = (case attribute n a of None \<Rightarrow> def | Some s \<Rightarrow> get_value_bool s)"

subsection \<open>What the program takes from its platform\<close>

text \<open>
  The file system, the XML reader, the C library's number reader and the home directory are
  not part of the two source files; they are parameters of the model.
  \<^item> \<open>fs_exists\<close>: \<^verbatim>\<open>boost::filesystem::exists\<close>;
  \<^item> \<open>load_file\<close>: \<^verbatim>\<open>pugi::xml_document::load_file\<close>, the top-level nodes of the document
    or the description of the parse error;
  \<^item> \<open>strtof\<close>: the float that \<^verbatim>\<open>strtod\<close> reads from a text, as \<^verbatim>\<open>atof\<close> and pugixml's
    \<^verbatim>\<open>as_float\<close> use it before converting to \<^verbatim>\<open>float\<close>;
  \<^item> \<open>getHomePath\<close>: the program's \<^verbatim>\<open>getHomePath()\<close>;
  \<^item> \<open>parent_path\<close>: \<^verbatim>\<open>boost::filesystem::path::parent_path\<close>.
\<close>

record env =
  fs_exists :: "string \<Rightarrow> bool"
  load_file :: "string \<Rightarrow> string + xml_node list"
  strtof :: "string \<Rightarrow> cfloat"
  getHomePath :: string
  parent_path :: "string \<Rightarrow> string"

text \<open>\<^verbatim>\<open>xml_text::as_float(def)\<close>: the default when the node has no text.\<close>

definition as_float :: "env \<Rightarrow> xml_node option \<Rightarrow> cfloat \<Rightarrow> cfloat" where
  "as_float env n def =
     (case n of
        None \<Rightarrow> def
      | Some k \<Rightarrow> (case text_data k of None \<Rightarrow> def | Some s \<Rightarrow> strtof env s))"

subsection \<open>Exceptions and outcomes\<close>

text \<open>
  The causes a \<^verbatim>\<open>ThemeException\<close> is thrown with, one constructor per message of the source,
  carrying what the message prints.
\<close>

datatype theme_error =
    MissingFile
  | XmlParsingError string
  | MissingThemeTag
  | VersionTagMissing int
  | VersionTooOld cfloat int
  | ViewMissingName
  | ElementMissingName string
  | UnknownElementType string
  | UnknownPropertyType string string
  | InvalidNormalizedPair string
  | EmptyColor
  | InvalidColorLength string

text \<open>
  A \<^verbatim>\<open>ThemeException\<close>: the file named by \<^verbatim>\<open>setFile\<close>, when the throwing function called it,
  and the cause.
\<close>

datatype ThemeException = ThemeException "string option" theme_error

text \<open>
  The outcome of a call: a returned value, a thrown \<^verbatim>\<open>ThemeException\<close>, or no defined
  behaviour at all.
\<close>

datatype 'a outcome = Ok 'a | Throw ThemeException | Undefined

subsection \<open>The schema of elements\<close>

datatype ElementPropertyType = NORMALIZED_PAIR | PATH | STRING | COLOR | FLOAT | BOOLEAN

text \<open>\<^verbatim>\<open>ThemeData::sElementMap\<close>\<close>

definition sElementMap :: "string \<rightharpoonup> (string \<rightharpoonup> ElementPropertyType)" where
  "sElementMap = map_of
     [(''image'', map_of
         [(''pos'', NORMALIZED_PAIR),
          (''size'', NORMALIZED_PAIR),
          (''origin'', NORMALIZED_PAIR),
          (''path'', PATH),
          (''tile'', BOOLEAN)]),
      (''text'', map_of
         [(''pos'', NORMALIZED_PAIR),
          (''size'', NORMALIZED_PAIR),
          (''text'', STRING),
          (''color'', COLOR),
          (''fontPath'', PATH),
          (''fontSize'', FLOAT),
          (''center'', BOOLEAN)]),
      (''textlist'', map_of
         [(''pos'', NORMALIZED_PAIR),
          (''size'', NORMALIZED_PAIR),
          (''selectorColor'', COLOR),
          (''selectedColor'', COLOR),
          (''primaryColor'', COLOR),
          (''secondaryColor'', COLOR),
          (''fontPath'', PATH),
          (''fontSize'', FLOAT)]),
      (''sound'', map_of
         [(''path'', PATH)])]"

definition MINIMUM_THEME_VERSION :: int where
  "MINIMUM_THEME_VERSION = 3"

definition CURRENT_THEME_VERSION :: int where
  "CURRENT_THEME_VERSION = 3"

subsection \<open>The theme store\<close>

text \<open>
  The alternatives of
  \<^verbatim>\<open>boost::variant<Eigen::Vector2f, std::string, unsigned int, float, bool>\<close>.
\<close>

datatype PropertyValue =
    Vector2f cfloat cfloat
  | String string
  | UInt "32 word"
  | Float cfloat
  | Bool bool

text \<open>\<^verbatim>\<open>ThemeElement\<close>; the parser never assigns \<^verbatim>\<open>type\<close>, which stays empty.\<close>

record ThemeElement =
  extra :: bool
  type :: string
  properties :: "(string, PropertyValue) mapping"

text \<open>
  \<^verbatim>\<open>ThemeView\<close>; its list of extras is filled by \<^verbatim>\<open>getExtras\<close> only and is empty in every
  view the parser builds.
\<close>

record ThemeView =
  elements :: "(string, ThemeElement) mapping"
  mExtrasDirty :: bool

text \<open>The members of \<^verbatim>\<open>ThemeData\<close> that loading reads or writes.\<close>

record ThemeData =
  mPath :: string
  mVersion :: cfloat
  mViews :: "(string, ThemeView) mapping"

text \<open>The constructor \<^verbatim>\<open>ThemeData::ThemeData()\<close>.\<close>

definition ThemeData_new :: ThemeData where
  "ThemeData_new = \<lparr>mPath = [], mVersion = Fin 0, mViews = Mapping.empty\<rparr>"

subsection \<open>Colours\<close>

definition isspace :: "char \<Rightarrow> bool" where
  "isspace c = (c \<in> set [CHR '' '', CHR 0x09, CHR 0x0A, CHR 0x0B, CHR 0x0C, CHR 0x0D])"

definition hex_digit :: "char \<rightharpoonup> nat" where
  "hex_digit = map_of
     [(CHR ''0'', 0), (CHR ''1'', 1), (CHR ''2'', 2), (CHR ''3'', 3), (CHR ''4'', 4),
      (CHR ''5'', 5), (CHR ''6'', 6), (CHR ''7'', 7), (CHR ''8'', 8), (CHR ''9'', 9),
      (CHR ''a'', 10), (CHR ''b'', 11), (CHR ''c'', 12), (CHR ''d'', 13), (CHR ''e'', 14),
      (CHR ''f'', 15),
      (CHR ''A'', 10), (CHR ''B'', 11), (CHR ''C'', 12), (CHR ''D'', 13), (CHR ''E'', 14),
      (CHR ''F'', 15)]"

text \<open>The digits a hexadecimal extraction consumes: it stops at the first other character.\<close>

fun hex_accum :: "nat \<Rightarrow> string \<Rightarrow> nat" where
  "hex_accum acc [] = acc"
| "hex_accum acc (c # cs) =
     (case hex_digit c of
        None \<Rightarrow> acc
      | Some d \<Rightarrow> hex_accum (acc * 16 + d) cs)"

text \<open>
  The extraction of the C++ standard library,
  \<^verbatim>\<open>ss << str; ss >> std::hex >> val\<close> for an \<^verbatim>\<open>unsigned int\<close>: leading white space is
  skipped, a sign and a \<^verbatim>\<open>0x\<close> prefix are accepted, then hexadecimal digits are read as far
  as they go. Without any digit the value is 0, beyond 32 bits it is the largest value, and
  a minus sign negates modulo \<open>2 ^ 32\<close>.
\<close>

definition istream_hex :: "string \<Rightarrow> 32 word" where
  "istream_hex str =
     (let s1 = dropWhile isspace str;
          neg = (s1 \<noteq> [] \<and> hd s1 = CHR ''-'');
          s2 = (if s1 \<noteq> [] \<and> (hd s1 = CHR ''-'' \<or> hd s1 = CHR ''+'') then tl s1 else s1);
          s3 = (if take 2 s2 = ''0x'' \<or> take 2 s2 = ''0X'' then drop 2 s2 else s2);
          n = hex_accum 0 s3
      in if 2 ^ 32 \<le> n then - 1
         else if neg then - word_of_nat n
         else word_of_nat n)"

text \<open>\<^verbatim>\<open>getHexColor\<close>; a null pointer is \<open>None\<close>. No file is set on its exception.\<close>

definition getHexColor :: "string option \<Rightarrow> 32 word outcome" where
  "getHexColor str =
     (case str of
        None \<Rightarrow> Throw (ThemeException None EmptyColor)
      | Some s \<Rightarrow>
          (let len = length s in
           if len \<noteq> 6 \<and> len \<noteq> 8 then Throw (ThemeException None (InvalidColorLength s))
           else
             (let val = istream_hex s in
              Ok (if len = 6 then push_bit 8 val OR 0xFF else val))))"

text \<open>
  The value of a string of hexadecimal digits, as positional notation defines it: the last
  digit counts once, each digit before it sixteen times more.
\<close>

fun base16_rev :: "string \<Rightarrow> nat" where
  "base16_rev [] = 0"
| "base16_rev (c # cs) = (case hex_digit c of None \<Rightarrow> 0 | Some d \<Rightarrow> d) + 16 * base16_rev cs"

definition base16 :: "string \<Rightarrow> nat" where
  "base16 s = base16_rev (rev s)"

definition is_hex :: "string \<Rightarrow> bool" where
  "is_hex s = list_all (\<lambda>c. hex_digit c \<noteq> None) s"

subsection \<open>Paths\<close>

text \<open>
  The paths of the \<^verbatim>\<open>boost::filesystem\<close> library (version 3) on a POSIX system, after the
  library's documented behaviour: the only separator is the slash, and \<^verbatim>\<open>generic_string()\<close>
  is the stored string.
\<close>

definition is_separator :: "char \<Rightarrow> bool" where
  "is_separator c = (c = CHR ''/'')"

text \<open>
  \<^verbatim>\<open>*path.begin()\<close>, the first element of a non-empty path: a network name \<^verbatim>\<open>//name\<close>, the
  root directory, or the characters before the first separator.
\<close>

definition first_element :: "string \<Rightarrow> string" where
  "first_element src =
     (if 2 \<le> length src \<and> is_separator (src ! 0) \<and> is_separator (src ! 1)
         \<and> (length src = 2 \<or> \<not> is_separator (src ! 2))
      then take 2 src @ takeWhile (\<lambda>c. \<not> is_separator c) (drop 2 src)
      else if src \<noteq> [] \<and> is_separator (src ! 0) then ''/''
      else takeWhile (\<lambda>c. \<not> is_separator c) src)"

text \<open>
  \<^verbatim>\<open>operator/\<close>: an empty right side changes nothing, and a separator is put in between
  unless the right side starts with one or the left side is empty or ends with one.
\<close>

definition path_append :: "string \<Rightarrow> string \<Rightarrow> string" where
  "path_append p q =
     (if q = [] then p
      else if is_separator (hd q) then p @ q
      else if p \<noteq> [] \<and> \<not> is_separator (last p) then p @ ''/'' @ q
      else p @ q)"

definition generic_string :: "string \<Rightarrow> string" where
  "generic_string p = p"

text \<open>
  \<^verbatim>\<open>resolvePath\<close>; a null pointer is \<open>None\<close>. For a null pointer the guard returns \<^verbatim>\<open>in\<close>
  itself, which builds the \<^verbatim>\<open>std::string\<close> result from a null pointer: that has no defined
  behaviour.
\<close>

definition resolvePath :: "env \<Rightarrow> string option \<Rightarrow> string \<Rightarrow> string outcome" where
  "resolvePath env inp relative =
     (case inp of
        None \<Rightarrow> Undefined
      | Some s \<Rightarrow>
          if s = [] then Ok s
          else
            (let relPath = parent_path env relative in
             if first_element s = ''~'' then Ok (generic_string (getHomePath env @ tl s))
             else if first_element s = ''.'' then Ok (generic_string (path_append relPath (tl s)))
             else Ok (generic_string s)))"

subsection \<open>Elements, views and the document\<close>

text \<open>\<^verbatim>\<open>str.find(c)\<close>: the index of the first occurrence, \<open>None\<close> for \<^verbatim>\<open>npos\<close>.\<close>

definition str_find :: "string \<Rightarrow> char \<Rightarrow> nat option" where
  "str_find s c = (if c \<in> set s then Some (length (takeWhile (\<lambda>x. x \<noteq> c) s)) else None)"

text \<open>
  \<^verbatim>\<open>parseView\<close> and \<^verbatim>\<open>parseElement\<close> are member functions that read one member only,
  \<^verbatim>\<open>mPath\<close>; they take it as the argument \<open>path\<close>.

  The body of the \<^verbatim>\<open>switch\<close> in \<^verbatim>\<open>parseElement\<close>: the value of one property node of the
  given type. The warning logged for a path that does not exist changes no result and is
  left out. Every type of the enumeration has its case, so the \<^verbatim>\<open>default\<close> branch is never
  taken.
\<close>

definition parseProperty ::
  "env \<Rightarrow> string \<Rightarrow> ElementPropertyType \<Rightarrow> xml_node \<Rightarrow> PropertyValue outcome" where
  "parseProperty env path ty node =
     (case ty of
        NORMALIZED_PAIR \<Rightarrow>
          (let str = as_string node in
           case str_find str CHR '' '' of
             None \<Rightarrow> Throw (ThemeException (Some path) (InvalidNormalizedPair str))
           | Some divider \<Rightarrow>
               (let first = take divider str;
                    second = drop divider str
                in Ok (Vector2f (strtof env first) (strtof env second))))
      | STRING \<Rightarrow> Ok (String (as_string node))
      | PATH \<Rightarrow> map_outcome String (resolvePath env (Some (as_string node)) path)
      | COLOR \<Rightarrow> map_outcome UInt (getHexColor (Some (as_string node)))
      | FLOAT \<Rightarrow> Ok (Float (as_float env (Some node) (Fin 0)))
      | BOOLEAN \<Rightarrow> Ok (Bool (as_bool node False)))"

text \<open>The loop of \<^verbatim>\<open>parseElement\<close> over the property nodes still to visit.\<close>

fun parseElement_loop ::
  "env \<Rightarrow> string \<Rightarrow> string \<Rightarrow> (string \<rightharpoonup> ElementPropertyType) \<Rightarrow> ThemeElement
     \<Rightarrow> xml_node list \<Rightarrow> ThemeElement outcome" where
  "parseElement_loop env path rootName typeMap element [] = Ok element"
| "parseElement_loop env path rootName typeMap element (node # rest) =
     (case typeMap (node_name node) of
        None \<Rightarrow>
          Throw (ThemeException (Some path) (UnknownPropertyType (node_name node) rootName))
      | Some ty \<Rightarrow>
          (case parseProperty env path ty node of
             Ok v \<Rightarrow>
               parseElement_loop env path rootName typeMap
                 (element\<lparr>properties := Mapping.update (node_name node) v (properties element)\<rparr>)
                 rest
           | Throw e \<Rightarrow> Throw e
           | Undefined \<Rightarrow> Undefined))"

text \<open>\<^verbatim>\<open>ThemeData::parseElement\<close>\<close>

definition parseElement ::
  "env \<Rightarrow> string \<Rightarrow> xml_node \<Rightarrow> (string \<rightharpoonup> ElementPropertyType) \<Rightarrow> ThemeElement outcome"
  where
  "parseElement env path rootNode typeMap =
     parseElement_loop env path (node_name rootNode) typeMap
       \<lparr>extra = attribute_as_bool rootNode ''extra'' False,
        type = [],
        properties = Mapping.empty\<rparr>
       (children rootNode)"

text \<open>The loop of \<^verbatim>\<open>parseView\<close> over the element nodes still to visit.\<close>

fun parseView_loop ::
  "env \<Rightarrow> string \<Rightarrow> ThemeView \<Rightarrow> xml_node list \<Rightarrow> ThemeView outcome" where
  "parseView_loop env path view [] = Ok view"
| "parseView_loop env path view (node # rest) =
     (case attribute node ''name'' of
        None \<Rightarrow> Throw (ThemeException (Some path) (ElementMissingName (node_name node)))
      | Some name \<Rightarrow>
          (case sElementMap (node_name node) of
             None \<Rightarrow> Throw (ThemeException (Some path) (UnknownElementType (node_name node)))
           | Some typeMap \<Rightarrow>
               (case parseElement env path node typeMap of
                  Ok element \<Rightarrow>
                    parseView_loop env path
                      (view\<lparr>elements := Mapping.update name element (elements view)\<rparr>) rest
                | Throw e \<Rightarrow> Throw e
                | Undefined \<Rightarrow> Undefined)))"

text \<open>\<^verbatim>\<open>ThemeData::parseView\<close>\<close>

definition parseView :: "env \<Rightarrow> string \<Rightarrow> xml_node \<Rightarrow> ThemeView outcome" where
  "parseView env path rootNode =
     parseView_loop env path \<lparr>elements = Mapping.empty, mExtrasDirty = True\<rparr>
       (children rootNode)"

text \<open>
  What \<^verbatim>\<open>loadFile\<close> does with a parsed view: it is stored under its name when it has at
  least one element, and dropped otherwise.
\<close>

definition store_view :: "ThemeData \<Rightarrow> string \<Rightarrow> ThemeView \<Rightarrow> ThemeData" where
  "store_view this name view =
     (if \<not> Mapping.is_empty (elements view)
      then this\<lparr>mViews := Mapping.update name view (mViews this)\<rparr>
      else this)"

text \<open>
  The loop of \<^verbatim>\<open>loadFile\<close> over the view nodes still to visit. It writes \<^verbatim>\<open>mViews\<close> as it
  goes, so the store is returned with the outcome.
\<close>

fun loadFile_views ::
  "env \<Rightarrow> ThemeData \<Rightarrow> string \<Rightarrow> xml_node list \<Rightarrow> unit outcome \<times> ThemeData" where
  "loadFile_views env this path [] = (Ok (), this)"
| "loadFile_views env this path (node # rest) =
     (case attribute node ''name'' of
        None \<Rightarrow> (Throw (ThemeException (Some path) ViewMissingName), this)
      | Some name \<Rightarrow>
          (case parseView env (mPath this) node of
             Ok view \<Rightarrow> loadFile_views env (store_view this name view) path rest
           | Throw e \<Rightarrow> (Throw e, this)
           | Undefined \<Rightarrow> (Undefined, this)))"

text \<open>\<^verbatim>\<open>ThemeData::loadFile\<close>: the outcome and the store the call leaves behind.\<close>

definition loadFile :: "env \<Rightarrow> ThemeData \<Rightarrow> string \<Rightarrow> unit outcome \<times> ThemeData" where
  "loadFile env this0 path =
     (let this1 = this0\<lparr>mPath := path\<rparr> in
      if \<not> fs_exists env path then (Throw (ThemeException (Some path) MissingFile), this1)
      else
        (let this2 = this1\<lparr>mVersion := Fin 0, mViews := Mapping.empty\<rparr> in
         case load_file env path of
           Inl description \<Rightarrow>
             (Throw (ThemeException (Some path) (XmlParsingError description)), this2)
         | Inr doc \<Rightarrow>
             (case child doc ''theme'' of
                None \<Rightarrow> (Throw (ThemeException (Some path) MissingThemeTag), this2)
              | Some rootNode \<Rightarrow>
                  (let this3 = this2\<lparr>mVersion :=
                         as_float env (child (children rootNode) ''version'') (Fin (- 404))\<rparr> in
                   if float_eq (mVersion this3) (Fin (- 404))
                   then (Throw (ThemeException (Some path)
                                  (VersionTagMissing CURRENT_THEME_VERSION)), this3)
                   else if float_lt (mVersion this3) (Fin (of_int MINIMUM_THEME_VERSION))
                   then (Throw (ThemeException (Some path)
                                  (VersionTooOld (mVersion this3) MINIMUM_THEME_VERSION)), this3)
                   else loadFile_views env this3 path
                          (children_named (children rootNode) ''view'')))))"

text \<open>
  The alternative of the variant that holds a value, and the alternative a property type
  is stored in: a pair of floats for a normalized pair, a string for a string and for a
  path, an unsigned integer for a colour, a float for a float, a boolean for a boolean.
\<close>

datatype variant_tag = T_Vector2f | T_string | T_unsigned | T_float | T_bool

fun active_tag :: "PropertyValue \<Rightarrow> variant_tag" where
  "active_tag (Vector2f x y) = T_Vector2f"
| "active_tag (String s) = T_string"
| "active_tag (UInt w) = T_unsigned"
| "active_tag (Float f) = T_float"
| "active_tag (Bool b) = T_bool"

fun declared_tag :: "ElementPropertyType \<Rightarrow> variant_tag" where
  "declared_tag NORMALIZED_PAIR = T_Vector2f"
| "declared_tag PATH = T_string"
| "declared_tag STRING = T_string"
| "declared_tag COLOR = T_unsigned"
| "declared_tag FLOAT = T_float"
| "declared_tag BOOLEAN = T_bool"

subsection \<open>A concrete platform\<close>

text \<open>
  One platform to run the model on: a file system given as a table of files, decimal
  numerals read exactly, and the directory of a file taken as everything before its last
  slash. The numeral reader covers the plain notation only (white space, a sign, digits, a
  point, digits; no exponent, hexadecimal, infinity or NaN) and does not round to a float;
  the directory differs from \<^verbatim>\<open>parent_path\<close> for a file directly under the root and for
  doubled slashes. The examples use numerals that are exact floats and a theme file two
  directories deep, where both agree with the libraries; the properties below hold for
  every platform.
\<close>

definition dec_digit :: "char \<rightharpoonup> nat" where
  "dec_digit = map_of
     [(CHR ''0'', 0), (CHR ''1'', 1), (CHR ''2'', 2), (CHR ''3'', 3), (CHR ''4'', 4),
      (CHR ''5'', 5), (CHR ''6'', 6), (CHR ''7'', 7), (CHR ''8'', 8), (CHR ''9'', 9)]"

definition is_digit :: "char \<Rightarrow> bool" where
  "is_digit c = (dec_digit c \<noteq> None)"

fun dec_accum :: "nat \<Rightarrow> string \<Rightarrow> nat" where
  "dec_accum acc [] = acc"
| "dec_accum acc (c # cs) =
     (case dec_digit c of
        None \<Rightarrow> acc
      | Some d \<Rightarrow> dec_accum (acc * 10 + d) cs)"

definition dec_strtof :: "string \<Rightarrow> cfloat" where
  "dec_strtof str =
     (let s1 = dropWhile isspace str;
          neg = (s1 \<noteq> [] \<and> hd s1 = CHR ''-'');
          s2 = (if s1 \<noteq> [] \<and> (hd s1 = CHR ''-'' \<or> hd s1 = CHR ''+'') then tl s1 else s1);
          ip = takeWhile is_digit s2;
          s3 = dropWhile is_digit s2;
          fp = (if s3 \<noteq> [] \<and> hd s3 = CHR ''.'' then takeWhile is_digit (tl s3) else []);
          m = rat_of_nat (dec_accum 0 (ip @ fp)) / rat_of_nat (10 ^ length fp)
      in Fin (if neg then - m else m))"

definition dirname :: "string \<Rightarrow> string" where
  "dirname p = rev (drop 1 (dropWhile (\<lambda>c. c \<noteq> CHR ''/'') (rev p)))"

definition posix_env :: "(string \<rightharpoonup> string + xml_node list) \<Rightarrow> env" where
  "posix_env files =
     \<lparr>fs_exists = (\<lambda>p. files p \<noteq> None),
      load_file = (\<lambda>p. case files p of None \<Rightarrow> Inl ''File was not found'' | Some r \<Rightarrow> r),
      strtof = dec_strtof,
      getHomePath = ''/home/pi'',
      parent_path = dirname\<rparr>"

subsection \<open>Documents and what is declared in them\<close>

text \<open>
  The root \<^verbatim>\<open><theme>\<close> tag of the document at a path: there is one when the file exists,
  is well-formed XML and has such a tag.
\<close>

definition theme_root :: "env \<Rightarrow> string \<Rightarrow> xml_node option" where
  "theme_root env path =
     (if fs_exists env path
      then (case load_file env path of Inl description \<Rightarrow> None | Inr doc \<Rightarrow> child doc ''theme'')
      else None)"

text \<open>The version a theme declares: the float its \<^verbatim>\<open><version>\<close> tag's text denotes.\<close>

definition declared_version :: "env \<Rightarrow> xml_node \<Rightarrow> cfloat option" where
  "declared_version env rootNode =
     (case child (children rootNode) ''version'' of
        None \<Rightarrow> None
      | Some v \<Rightarrow> map_option (strtof env) (text_data v))"

definition view_nodes :: "xml_node \<Rightarrow> xml_node list" where
  "view_nodes rootNode = children_named (children rootNode) ''view''"

text \<open>A property node, an element node, a view node that is valid taken by itself.\<close>

definition property_ok ::
  "env \<Rightarrow> string \<Rightarrow> (string \<rightharpoonup> ElementPropertyType) \<Rightarrow> xml_node \<Rightarrow> bool" where
  "property_ok env path typeMap node =
     (case typeMap (node_name node) of
        None \<Rightarrow> False
      | Some ty \<Rightarrow>
          (case parseProperty env path ty node of
             Ok v \<Rightarrow> True
           | Throw e \<Rightarrow> False
           | Undefined \<Rightarrow> False))"

definition element_ok :: "env \<Rightarrow> string \<Rightarrow> xml_node \<Rightarrow> bool" where
  "element_ok env path node =
     (attribute node ''name'' \<noteq> None \<and>
      (case sElementMap (node_name node) of
         None \<Rightarrow> False
       | Some typeMap \<Rightarrow>
           (case parseElement env path node typeMap of
              Ok element \<Rightarrow> True
            | Throw e \<Rightarrow> False
            | Undefined \<Rightarrow> False)))"

definition view_ok :: "env \<Rightarrow> string \<Rightarrow> xml_node \<Rightarrow> bool" where
  "view_ok env path node =
     (attribute node ''name'' \<noteq> None \<and>
      (case parseView env path node of
         Ok view \<Rightarrow> True
       | Throw e \<Rightarrow> False
       | Undefined \<Rightarrow> False))"

text \<open>
  The declared version passes both checks of \<^verbatim>\<open>loadFile\<close>: it is not the value that
  stands for an absent tag and not below the minimum.
\<close>

definition version_accepted :: "env \<Rightarrow> xml_node \<Rightarrow> bool" where
  "version_accepted env rootNode =
     (case declared_version env rootNode of
        None \<Rightarrow> False
      | Some v \<Rightarrow>
          \<not> float_eq v (Fin (- 404)) \<and> \<not> float_lt v (Fin (of_int MINIMUM_THEME_VERSION)))"

text \<open>
  An element node the Schema Registry does not allow: its tag is not an element type, or
  the tag of one of its property children is not a key of its type's schema.
\<close>

definition schema_mismatch :: "xml_node \<Rightarrow> bool" where
  "schema_mismatch node =
     (case sElementMap (node_name node) of
        None \<Rightarrow> True
      | Some typeMap \<Rightarrow> list_ex (\<lambda>p. typeMap (node_name p) = None) (children node))"

subsection \<open>Example themes\<close>

definition theme_path :: string where
  "theme_path = ''/themes/simple/theme.xml''"

text \<open>A platform whose only file is the theme file, holding the given document.\<close>

definition one_file :: "xml_node list \<Rightarrow> env" where
  "one_file doc = posix_env [theme_path \<mapsto> Inr doc]"

definition theme_doc :: "string \<Rightarrow> xml_node list \<Rightarrow> xml_node list" where
  "theme_doc version views =
     [Element ''theme'' [] (Element ''version'' [] [PCData version] # views)]"

definition logo_element :: xml_node where
  "logo_element =
     Element ''image'' [(''name'', ''logo'')]
       [Element ''pos'' [] [PCData ''0.5 0.25''],
        Element ''path'' [] [PCData ''./logo.png''],
        Element ''tile'' [] [PCData ''true'']]"

definition basic_view :: xml_node where
  "basic_view = Element ''view'' [(''name'', ''basic'')] [logo_element]"

definition no_theme_doc :: "xml_node list" where
  "no_theme_doc = [Element ''layout'' [] [basic_view]]"

text \<open>A store as an earlier successful load left it.\<close>

definition loaded_store :: ThemeData where
  "loaded_store =
     \<lparr>mPath = ''/themes/old/theme.xml'',
      mVersion = Fin 3,
      mViews = Mapping.update ''system''
        \<lparr>elements = Mapping.update ''logo''
            \<lparr>extra = False, type = [], properties = Mapping.empty\<rparr> Mapping.empty,
         mExtrasDirty = True\<rparr> Mapping.empty\<rparr>"

definition no_version_doc :: "xml_node list" where
  "no_version_doc = [Element ''theme'' [] [basic_view]]"

definition pair_node :: "string \<Rightarrow> xml_node" where
  "pair_node txt = Element ''pos'' [] [PCData txt]"

definition twice_element :: xml_node where
  "twice_element =
     Element ''image'' [(''name'', ''logo'')]
       [pair_node ''0.1 0.2'',
        Element ''tile'' [] [PCData ''true''],
        pair_node ''0.5 0.25'']"

text \<open>What the example element and view parse to.\<close>

definition logo_parsed :: ThemeElement where
  "logo_parsed =
     \<lparr>extra = False,
      type = [],
      properties =
        Mapping.update ''tile'' (Bool True)
          (Mapping.update ''path'' (String ''/themes/simple/logo.png'')
             (Mapping.update ''pos'' (Vector2f (Fin (1 / 2)) (Fin (1 / 4))) Mapping.empty))\<rparr>"

definition basic_parsed :: ThemeView where
  "basic_parsed = \<lparr>elements = Mapping.update ''logo'' logo_parsed Mapping.empty, mExtrasDirty = True\<rparr>"

definition empty_view :: xml_node where
  "empty_view = Element ''view'' [(''name'', ''empty'')] []"

definition bogus_element :: xml_node where
  "bogus_element = Element ''bogus'' [(''name'', ''extra'')] []"

definition colour_element :: xml_node where
  "colour_element =
     Element ''image'' [(''name'', ''background'')]
       [pair_node ''0.5 0.25'', Element ''colour'' [] [PCData ''ff0000'']]"

definition mixed_view :: "xml_node \<Rightarrow> xml_node" where
  "mixed_view node = Element ''view'' [(''name'', ''detailed'')] [logo_element, node]"

definition nameless_bogus :: xml_node where
  "nameless_bogus = Element ''bogus'' [] []"

definition empty_basic_view :: xml_node where
  "empty_basic_view = Element ''view'' [(''name'', ''basic'')] []"

section \<open>Properties\<close>

text \<open>The definitions to unfold when a load is run on an example.\<close>

lemmas platform_simps =
  one_file_def posix_env_def theme_path_def dec_strtof_def isspace_def is_digit_def
  dec_digit_def dirname_def

lemmas doc_simps =
  theme_doc_def basic_view_def logo_element_def child_def children_named_def theme_root_def
  declared_version_def view_nodes_def

lemmas parse_simps =
  parseView_def parseElement_def sElementMap_def parseProperty_def as_string_def str_find_def
  resolvePath_def first_element_def is_separator_def path_append_def generic_string_def
  attribute_as_bool_def as_bool_def get_value_bool_def as_float_def store_view_def
  view_ok_def element_ok_def property_ok_def MINIMUM_THEME_VERSION_def
  CURRENT_THEME_VERSION_def

subsection \<open>Colour tokens\<close>

lemma hex_digit_less_16: "hex_digit c = Some d \<Longrightarrow> d < 16"
  by (auto simp: hex_digit_def split: if_splits)

lemma hex_digit_not_space: "hex_digit c = Some d \<Longrightarrow> \<not> isspace c"
  by (auto simp: hex_digit_def isspace_def split: if_splits)

lemma hex_digit_plain:
  "hex_digit c = Some d \<Longrightarrow>
     c \<noteq> CHR ''-'' \<and> c \<noteq> CHR ''+'' \<and> c \<noteq> CHR ''x'' \<and> c \<noteq> CHR ''X''"
  by (auto simp: hex_digit_def split: if_splits)

lemma base16_rev_append:
  "base16_rev (xs @ ys) = base16_rev xs + 16 ^ length xs * base16_rev ys"
  by (induction xs) (auto simp: algebra_simps)

text \<open>The left-to-right loop of the extraction computes the positional value.\<close>

lemma hex_accum_base16:
  "is_hex s \<Longrightarrow> hex_accum acc s = acc * 16 ^ length s + base16 s"
proof (induction s arbitrary: acc)
  case Nil
  then show ?case by (simp add: base16_def)
next
  case (Cons c cs)
  then obtain d where d: "hex_digit c = Some d" and cs: "is_hex cs"
    by (auto simp: is_hex_def)
  have "base16 (c # cs) = d * 16 ^ length cs + base16 cs"
    by (simp add: base16_def base16_rev_append d)
  with Cons.IH [OF cs] d show ?case
    by (simp add: algebra_simps)
qed

lemma base16_rev_bound: "base16_rev s < 16 ^ length s"
proof (induction s)
  case Nil
  show ?case by simp
next
  case (Cons c cs)
  have "(case hex_digit c of None \<Rightarrow> 0 | Some d \<Rightarrow> d) < 16"
    by (auto split: option.splits dest: hex_digit_less_16)
  with Cons show ?case by simp
qed

lemma base16_fits:
  assumes "length s \<le> 8"
  shows "base16 s < 2 ^ 32"
proof -
  have "(16::nat) ^ length s \<le> 16 ^ 8"
    using assms by (intro power_increasing) auto
  moreover have "base16 s < 16 ^ length s"
    using base16_rev_bound [of "rev s"] by (simp add: base16_def)
  ultimately show ?thesis by simp
qed

lemma no_hex_prefix:
  assumes "is_hex s" and "c \<in> {CHR ''x'', CHR ''X''}"
  shows "take 2 s \<noteq> [CHR ''0'', c]"
proof
  assume "take 2 s = [CHR ''0'', c]"
  then have "c \<in> set s"
    by (metis in_set_takeD list.set_intros(1,2))
  with assms(1) obtain e where "hex_digit c = Some e"
    by (auto simp: is_hex_def list_all_iff)
  with assms(2) show False
    using hex_digit_plain by blast
qed

text \<open>On up to eight hexadecimal digits the stream extraction is the plain base-16 value.\<close>

lemma istream_hex_digits:
  assumes "is_hex s" and "length s \<le> 8"
  shows "istream_hex s = word_of_nat (base16 s)"
proof (cases s)
  case Nil
  then show ?thesis by (simp add: istream_hex_def base16_def)
next
  case (Cons c cs)
  with assms obtain d where d: "hex_digit c = Some d"
    by (auto simp: is_hex_def)
  have s1: "dropWhile isspace s = s"
    using Cons hex_digit_not_space [OF d] by simp
  have sg: "hd s \<noteq> CHR ''-''" "hd s \<noteq> CHR ''+''"
    using Cons hex_digit_plain [OF d] by simp_all
  have px: "take 2 s \<noteq> ''0x''" "take 2 s \<noteq> ''0X''"
    using no_hex_prefix [OF assms(1)] by simp_all
  have n: "hex_accum 0 s = base16 s"
    using hex_accum_base16 [OF assms(1), of 0] by simp
  have big: "\<not> (2::nat) ^ 32 \<le> hex_accum 0 s"
    using base16_fits [OF assms(2)] n by simp
  show ?thesis
    unfolding istream_hex_def Let_def s1 using sg px big by (simp add: n)
qed

lemma opaque_low_byte: "(push_bit 8 (v :: 32 word) OR 0xFF) AND 0xFF = 0xFF"
  by (simp add: bit.conj_disj_distrib2)

text \<open>
  Claim C3. A null colour token fails with the "empty color" error; a token whose length
  is neither 6 nor 8 fails with the bad-length error; a token of six hexadecimal digits
  decodes to its base-16 value shifted left by 8 bits and or-ed with \<open>0xFF\<close>, so its low
  byte is \<open>0xFF\<close>; a token of eight hexadecimal digits decodes to its base-16 value.
\<close>

theorem getHexColor_spec:
  "getHexColor None = Throw (ThemeException None EmptyColor)
   \<and> (length bad \<noteq> 6 \<and> length bad \<noteq> 8 \<longrightarrow>
        getHexColor (Some bad) = Throw (ThemeException None (InvalidColorLength bad)))
   \<and> (length rgb = 6 \<and> is_hex rgb \<longrightarrow>
        getHexColor (Some rgb) = Ok (push_bit 8 (word_of_nat (base16 rgb)) OR 0xFF)
        \<and> (push_bit 8 (word_of_nat (base16 rgb)) OR 0xFF) AND 0xFF = (0xFF :: 32 word))
   \<and> (length rgba = 8 \<and> is_hex rgba \<longrightarrow>
        getHexColor (Some rgba) = Ok (word_of_nat (base16 rgba)))"
proof (intro conjI impI)
  show "getHexColor None = Throw (ThemeException None EmptyColor)"
    by (simp add: getHexColor_def)
next
  assume "length bad \<noteq> 6 \<and> length bad \<noteq> 8"
  then show "getHexColor (Some bad) = Throw (ThemeException None (InvalidColorLength bad))"
    by (simp add: getHexColor_def)
next
  assume "length rgb = 6 \<and> is_hex rgb"
  then show "getHexColor (Some rgb) = Ok (push_bit 8 (word_of_nat (base16 rgb)) OR 0xFF)"
    by (simp add: getHexColor_def istream_hex_digits)
next
  show "(push_bit 8 (word_of_nat (base16 rgb)) OR 0xFF) AND 0xFF = (0xFF :: 32 word)"
    by (rule opaque_low_byte)
next
  assume "length rgba = 8 \<and> is_hex rgba"
  then show "getHexColor (Some rgba) = Ok (word_of_nat (base16 rgba))"
    by (simp add: getHexColor_def istream_hex_digits)
qed

theorem getHexColor_spec_witness:
  "getHexColor (Some ''12345'') = Throw (ThemeException None (InvalidColorLength ''12345''))
   \<and> getHexColor (Some ''FF8000'') = Ok 0xFF8000FF
   \<and> getHexColor (Some ''ff800080'') = Ok 0xFF800080"
  using getHexColor_spec [where bad = "''12345''" and rgb = "''FF8000''"
      and rgba = "''ff800080''"]
  by (simp add: is_hex_def hex_digit_def base16_def)

subsection \<open>Property nodes and elements\<close>

lemma resolvePath_defined: "\<exists>p. resolvePath env (Some s) rel = Ok p"
  by (simp add: resolvePath_def Let_def)

lemma getHexColor_defined: "getHexColor str \<noteq> Undefined"
  by (simp add: getHexColor_def Let_def split: option.splits)

lemma parseProperty_defined: "parseProperty env path ty node \<noteq> Undefined"
proof (cases ty)
  case PATH
  obtain p where "resolvePath env (Some (as_string node)) path = Ok p"
    using resolvePath_defined by blast
  with PATH show ?thesis by (simp add: parseProperty_def)
next
  case COLOR
  then show ?thesis
    using getHexColor_defined [of "Some (as_string node)"]
    by (cases "getHexColor (Some (as_string node))") (simp_all add: parseProperty_def)
qed (simp_all add: parseProperty_def Let_def split: option.splits)

lemma parseProperty_tag:
  assumes "parseProperty env path ty node = Ok v"
  shows "active_tag v = declared_tag ty"
proof (cases ty)
  case PATH
  with assms show ?thesis
    by (cases "resolvePath env (Some (as_string node)) path") (auto simp: parseProperty_def)
next
  case COLOR
  with assms show ?thesis
    by (cases "getHexColor (Some (as_string node))") (auto simp: parseProperty_def)
qed (use assms in \<open>auto simp: parseProperty_def Let_def split: option.splits\<close>)

lemma parseElement_loop_append:
  "parseElement_loop env path rn tm el (xs @ ys) =
     (case parseElement_loop env path rn tm el xs of
        Ok el' \<Rightarrow> parseElement_loop env path rn tm el' ys
      | Throw e \<Rightarrow> Throw e
      | Undefined \<Rightarrow> Undefined)"
  by (induction xs arbitrary: el) (auto split: option.splits outcome.splits)

lemma parseElement_loop_defined:
  "parseElement_loop env path rn tm el xs \<noteq> Undefined"
  by (induction xs arbitrary: el)
     (auto split: option.splits outcome.splits simp: parseProperty_defined)

lemma parseElement_loop_known:
  "parseElement_loop env path rn tm el xs = Ok el' \<Longrightarrow>
     \<forall>n \<in> set xs. \<exists>ty v. tm (node_name n) = Some ty \<and> parseProperty env path ty n = Ok v"
  by (induction xs arbitrary: el) (auto split: option.splits outcome.splits)

lemma parseElement_loop_succeeds:
  "\<forall>n \<in> set xs. \<exists>ty v. tm (node_name n) = Some ty \<and> parseProperty env path ty n = Ok v \<Longrightarrow>
     \<exists>el'. parseElement_loop env path rn tm el xs = Ok el'"
  by (induction xs arbitrary: el) (auto split: option.splits outcome.splits)

lemma parseElement_loop_other:
  "parseElement_loop env path rn tm el xs = Ok el' \<Longrightarrow> \<forall>n \<in> set xs. node_name n \<noteq> p \<Longrightarrow>
     Mapping.lookup (properties el') p = Mapping.lookup (properties el) p"
  by (induction xs arbitrary: el) (auto split: option.splits outcome.splits)

lemma parseElement_loop_typed:
  "parseElement_loop env path rn tm el xs = Ok el' \<Longrightarrow>
   Mapping.lookup (properties el') p = Some v \<Longrightarrow>
     Mapping.lookup (properties el) p = Some v \<or>
     (\<exists>n \<in> set xs. \<exists>ty. node_name n = p \<and> tm p = Some ty \<and> parseProperty env path ty n = Ok v)"
proof (induction xs arbitrary: el)
  case Nil
  then show ?case by simp
next
  case (Cons n ns)
  from Cons.prems(1) obtain ty w where ty: "tm (node_name n) = Some ty"
    and w: "parseProperty env path ty n = Ok w"
    and rest: "parseElement_loop env path rn tm
        (el\<lparr>properties := Mapping.update (node_name n) w (properties el)\<rparr>) ns = Ok el'"
    by (auto split: option.splits outcome.splits)
  from Cons.IH [OF rest Cons.prems(2)] show ?case
  proof
    assume "Mapping.lookup (properties (el\<lparr>properties := Mapping.update (node_name n) w (properties el)\<rparr>)) p = Some v"
    then show ?thesis
      using ty w by (auto simp: Mapping.lookup_update' split: if_splits)
  next
    assume "\<exists>n\<in>set ns. \<exists>ty. node_name n = p \<and> tm p = Some ty \<and> parseProperty env path ty n = Ok v"
    then show ?thesis by auto
  qed
qed

subsection \<open>Views and the view loop of the load\<close>

lemma parseView_loop_append:
  "parseView_loop env path view (xs @ ys) =
     (case parseView_loop env path view xs of
        Ok view' \<Rightarrow> parseView_loop env path view' ys
      | Throw e \<Rightarrow> Throw e
      | Undefined \<Rightarrow> Undefined)"
  by (induction xs arbitrary: view) (auto split: option.splits outcome.splits)

lemma parseElement_defined: "parseElement env path node tm \<noteq> Undefined"
  by (simp add: parseElement_def parseElement_loop_defined)

lemma parseView_loop_defined: "parseView_loop env path view xs \<noteq> Undefined"
  by (induction xs arbitrary: view)
     (auto split: option.splits outcome.splits simp: parseElement_defined)

lemma parseView_loop_known:
  "parseView_loop env path view xs = Ok view' \<Longrightarrow>
     \<forall>c \<in> set xs. \<exists>nm tm el. attribute c ''name'' = Some nm \<and> sElementMap (node_name c) = Some tm
        \<and> parseElement env path c tm = Ok el"
  by (induction xs arbitrary: view) (auto split: option.splits outcome.splits)

lemma parseView_loop_elements:
  "parseView_loop env path view xs = Ok view' \<Longrightarrow>
   Mapping.lookup (elements view') en = Some el \<Longrightarrow>
     Mapping.lookup (elements view) en = Some el \<or>
     (\<exists>c \<in> set xs. \<exists>tm. attribute c ''name'' = Some en \<and> sElementMap (node_name c) = Some tm
        \<and> parseElement env path c tm = Ok el)"
proof (induction xs arbitrary: view)
  case Nil
  then show ?case by simp
next
  case (Cons c cs)
  from Cons.prems(1) obtain nm tm e where nm: "attribute c ''name'' = Some nm"
    and tm: "sElementMap (node_name c) = Some tm"
    and e: "parseElement env path c tm = Ok e"
    and rest: "parseView_loop env path
        (view\<lparr>elements := Mapping.update nm e (elements view)\<rparr>) cs = Ok view'"
    by (auto split: option.splits outcome.splits)
  from Cons.IH [OF rest Cons.prems(2)] show ?case
  proof
    assume "Mapping.lookup (elements (view\<lparr>elements := Mapping.update nm e (elements view)\<rparr>)) en = Some el"
    then show ?thesis
      using nm tm e by (auto simp: Mapping.lookup_update' split: if_splits)
  next
    assume "\<exists>c\<in>set cs. \<exists>tm. attribute c ''name'' = Some en \<and> sElementMap (node_name c) = Some tm
        \<and> parseElement env path c tm = Ok el"
    then show ?thesis by auto
  qed
qed

lemma loadFile_views_append:
  "loadFile_views env this path (xs @ ys) =
     (case loadFile_views env this path xs of
        (Ok u, this') \<Rightarrow> loadFile_views env this' path ys
      | (Throw e, this') \<Rightarrow> (Throw e, this')
      | (Undefined, this') \<Rightarrow> (Undefined, this'))"
  by (induction xs arbitrary: this) (auto split: option.splits outcome.splits)

lemma parseView_defined: "parseView env path node \<noteq> Undefined"
  by (simp add: parseView_def parseView_loop_defined)

lemma loadFile_views_defined: "fst (loadFile_views env this path xs) \<noteq> Undefined"
  by (induction xs arbitrary: this)
     (auto split: option.splits outcome.splits simp: parseView_defined)

lemma store_view_frame [simp]:
  "mPath (store_view this nm w) = mPath this" "mVersion (store_view this nm w) = mVersion this"
  by (simp_all add: store_view_def)

lemma store_view_lookup:
  "Mapping.lookup (mViews (store_view this nm w)) vn =
     (if nm = vn \<and> \<not> Mapping.is_empty (elements w) then Some w
      else Mapping.lookup (mViews this) vn)"
  by (simp add: store_view_def Mapping.lookup_update')

lemma store_view_keys:
  "Mapping.keys (mViews (store_view this nm w)) =
     (if Mapping.is_empty (elements w) then Mapping.keys (mViews this)
      else insert nm (Mapping.keys (mViews this)))"
  by (simp add: store_view_def)

lemma loadFile_views_ConsE:
  assumes "loadFile_views env this path (n # ns) = (Ok u, this')"
  obtains nm w where "attribute n ''name'' = Some nm" "parseView env (mPath this) n = Ok w"
    "loadFile_views env (store_view this nm w) path ns = (Ok u, this')"
  using assms by (auto split: option.splits outcome.splits)

lemma loadFile_views_frame:
  "loadFile_views env this path xs = (r, this') \<Longrightarrow>
     mPath this' = mPath this \<and> mVersion this' = mVersion this"
proof (induction xs arbitrary: this)
  case Nil
  then show ?case by auto
next
  case (Cons n ns)
  show ?case
  proof (cases "attribute n ''name''")
    case None
    with Cons.prems show ?thesis by auto
  next
    case (Some nm)
    show ?thesis
    proof (cases "parseView env (mPath this) n")
      case (Ok w)
      with Some Cons.prems have "loadFile_views env (store_view this nm w) path ns = (r, this')"
        by simp
      from Cons.IH [OF this] show ?thesis by simp
    qed (use Some Cons.prems in auto)
  qed
qed

lemma loadFile_views_known:
  "loadFile_views env this path xs = (Ok u, this') \<Longrightarrow>
     \<forall>n \<in> set xs. \<exists>nm view. attribute n ''name'' = Some nm \<and> parseView env (mPath this) n = Ok view"
proof (induction xs arbitrary: this)
  case Nil
  then show ?case by simp
next
  case (Cons n ns)
  from Cons.prems obtain nm w where nm: "attribute n ''name'' = Some nm"
    and w: "parseView env (mPath this) n = Ok w"
    and rest: "loadFile_views env (store_view this nm w) path ns = (Ok u, this')"
    by (rule loadFile_views_ConsE)
  from Cons.IH [OF rest] nm w show ?case by simp
qed

lemma loadFile_views_succeeds:
  "\<forall>n \<in> set xs. \<exists>nm view. attribute n ''name'' = Some nm \<and> parseView env (mPath this) n = Ok view \<Longrightarrow>
     fst (loadFile_views env this path xs) = Ok ()"
proof (induction xs arbitrary: this)
  case Nil
  then show ?case by simp
next
  case (Cons n ns)
  then obtain nm w where nm: "attribute n ''name'' = Some nm"
    and w: "parseView env (mPath this) n = Ok w" by auto
  have "fst (loadFile_views env (store_view this nm w) path ns) = Ok ()"
    using Cons.prems by (intro Cons.IH) simp
  with nm w show ?case by simp
qed

lemma loadFile_views_stored:
  "loadFile_views env this path xs = (Ok u, this') \<Longrightarrow>
   Mapping.lookup (mViews this') vn = Some view \<Longrightarrow>
     Mapping.lookup (mViews this) vn = Some view \<or>
     (\<exists>n \<in> set xs. attribute n ''name'' = Some vn \<and> parseView env (mPath this) n = Ok view
        \<and> \<not> Mapping.is_empty (elements view))"
proof (induction xs arbitrary: this)
  case Nil
  then show ?case by simp
next
  case (Cons n ns)
  from Cons.prems(1) obtain nm w where nm: "attribute n ''name'' = Some nm"
    and w: "parseView env (mPath this) n = Ok w"
    and rest: "loadFile_views env (store_view this nm w) path ns = (Ok u, this')"
    by (rule loadFile_views_ConsE)
  from Cons.IH [OF rest Cons.prems(2)] nm w show ?case
    by (auto simp: store_view_lookup split: if_splits)
qed

lemma loadFile_views_other:
  "loadFile_views env this path xs = (Ok u, this') \<Longrightarrow>
   \<forall>n \<in> set xs. attribute n ''name'' \<noteq> Some vn \<Longrightarrow>
     Mapping.lookup (mViews this') vn = Mapping.lookup (mViews this) vn"
proof (induction xs arbitrary: this)
  case Nil
  then show ?case by simp
next
  case (Cons n ns)
  from Cons.prems(1) obtain nm w where nm: "attribute n ''name'' = Some nm"
    and w: "parseView env (mPath this) n = Ok w"
    and rest: "loadFile_views env (store_view this nm w) path ns = (Ok u, this')"
    by (rule loadFile_views_ConsE)
  from Cons.IH [OF rest] Cons.prems(2) nm show ?case
    by (auto simp: store_view_lookup)
qed

lemma loadFile_views_keys_mono:
  "loadFile_views env this path xs = (Ok u, this') \<Longrightarrow>
     Mapping.keys (mViews this) \<subseteq> Mapping.keys (mViews this')"
proof (induction xs arbitrary: this)
  case Nil
  then show ?case by simp
next
  case (Cons n ns)
  from Cons.prems(1) obtain nm w where
    rest: "loadFile_views env (store_view this nm w) path ns = (Ok u, this')"
    by (rule loadFile_views_ConsE)
  from Cons.IH [OF rest] show ?case
    by (auto simp: store_view_keys split: if_splits)
qed

lemma loadFile_views_kept:
  "loadFile_views env this path xs = (Ok u, this') \<Longrightarrow> n \<in> set xs \<Longrightarrow>
   attribute n ''name'' = Some vn \<Longrightarrow> parseView env (mPath this) n = Ok view \<Longrightarrow>
   \<not> Mapping.is_empty (elements view) \<Longrightarrow> vn \<in> Mapping.keys (mViews this')"
proof (induction xs arbitrary: this)
  case Nil
  then show ?case by simp
next
  case (Cons x xs)
  from Cons.prems(1) obtain nm w where nm: "attribute x ''name'' = Some nm"
    and w: "parseView env (mPath this) x = Ok w"
    and rest: "loadFile_views env (store_view this nm w) path xs = (Ok u, this')"
    by (rule loadFile_views_ConsE)
  show ?case
  proof (cases "n = x")
    case True
    with Cons.prems nm w have "vn \<in> Mapping.keys (mViews (store_view this nm w))"
      by (simp add: store_view_keys)
    with loadFile_views_keys_mono [OF rest] show ?thesis by blast
  next
    case False
    with Cons.prems(2) have "n \<in> set xs" by simp
    from Cons.IH [OF rest this Cons.prems(3)] Cons.prems(4,5) show ?thesis by simp
  qed
qed

subsection \<open>What a load leaves in the store\<close>

lemma float_eq_iff: "float_eq a b \<longleftrightarrow> a = b \<and> a \<noteq> NaN"
  by (cases a; cases b) simp_all

lemma loadFile_missing:
  "\<not> fs_exists env path \<Longrightarrow>
     loadFile env this path = (Throw (ThemeException (Some path) MissingFile), this\<lparr>mPath := path\<rparr>)"
  by (simp add: loadFile_def)

lemma store_overwritten:
  "(this :: ThemeData)\<lparr>mPath := p, mVersion := v, mViews := m\<rparr> =
     \<lparr>mPath = p, mVersion = v, mViews = m\<rparr>"
  by (cases this) simp

lemma loadFile_forgets:
  "fs_exists env path \<Longrightarrow> loadFile env this path = loadFile env other path"
  by (simp add: loadFile_def Let_def store_overwritten split: sum.splits option.splits)

lemma loadFile_no_document:
  assumes "fs_exists env path" and "theme_root env path = None"
  shows "\<exists>e. loadFile env this path =
           (Throw e, \<lparr>mPath = path, mVersion = Fin 0, mViews = Mapping.empty\<rparr>)"
  using assms
  by (auto simp: loadFile_def theme_root_def Let_def store_overwritten
           split: sum.splits option.splits)

text \<open>
  Claim C1, as amended. When the file does not exist the load fails and leaves the stored
  views and version as they were (only the stored path is set). When the file exists, the
  stored version and views are reset before the document is read, whatever the outcome: the
  result of the load, store included, does not depend on what was stored before, and a load
  that finds no well-formed document with a root theme tag leaves version 0 and no view.
\<close>

theorem loadFile_store_reset:
  "(\<not> fs_exists env1 path1 \<longrightarrow>
      loadFile env1 this1 path1 =
        (Throw (ThemeException (Some path1) MissingFile), this1\<lparr>mPath := path1\<rparr>))
   \<and> (fs_exists env2 path2 \<longrightarrow> loadFile env2 this2 path2 = loadFile env2 other2 path2)
   \<and> (fs_exists env3 path3 \<and> theme_root env3 path3 = None \<longrightarrow>
        (\<exists>e. loadFile env3 this3 path3 =
           (Throw e, \<lparr>mPath = path3, mVersion = Fin 0, mViews = Mapping.empty\<rparr>)))"
  using loadFile_missing loadFile_forgets loadFile_no_document by blast

theorem loadFile_store_reset_witness:
  "loadFile (one_file no_theme_doc) loaded_store ''/themes/none.xml'' =
     (Throw (ThemeException (Some ''/themes/none.xml'') MissingFile),
      loaded_store\<lparr>mPath := ''/themes/none.xml''\<rparr>)
   \<and> loadFile (one_file no_theme_doc) loaded_store theme_path =
       loadFile (one_file no_theme_doc) ThemeData_new theme_path
   \<and> (\<exists>e. loadFile (one_file no_theme_doc) loaded_store theme_path =
         (Throw e, \<lparr>mPath = theme_path, mVersion = Fin 0, mViews = Mapping.empty\<rparr>))"
proof -
  let ?env = "one_file no_theme_doc"
  have absent: "\<not> fs_exists ?env ''/themes/none.xml''"
    by (simp add: one_file_def posix_env_def theme_path_def)
  have present: "fs_exists ?env theme_path"
    by (simp add: one_file_def posix_env_def)
  have no_root: "theme_root ?env theme_path = None"
    by (simp add: one_file_def posix_env_def theme_root_def no_theme_doc_def child_def)
  show ?thesis
    using loadFile_store_reset [of ?env "''/themes/none.xml''" loaded_store
        ?env theme_path loaded_store ThemeData_new ?env theme_path loaded_store]
      absent present no_root
    by blast
qed

text \<open>
  Claim C1 as stated fails: a load that stops at the missing root tag has already reset the
  version and dropped the views of the earlier load.
\<close>

theorem loadFile_untouched_counterexample:
  "fst (loadFile (one_file no_theme_doc) loaded_store theme_path) =
     Throw (ThemeException (Some theme_path) MissingThemeTag)
   \<and> mVersion loaded_store = Fin 3
   \<and> mVersion (snd (loadFile (one_file no_theme_doc) loaded_store theme_path)) = Fin 0
   \<and> Mapping.lookup (mViews loaded_store) ''system'' \<noteq> None
   \<and> Mapping.lookup (mViews (snd (loadFile (one_file no_theme_doc) loaded_store theme_path)))
        ''system'' = None"
  by (simp add: loadFile_def one_file_def posix_env_def theme_path_def no_theme_doc_def child_def
      loaded_store_def)

subsection \<open>The version checks\<close>

lemma as_float_version:
  "as_float env (child (children r) ''version'') (Fin (- 404)) =
     (case declared_version env r of None \<Rightarrow> Fin (- 404) | Some v \<Rightarrow> v)"
  by (simp add: as_float_def declared_version_def split: option.splits)

lemma loadFile_document:
  assumes "theme_root env path = Some r"
  shows "loadFile env this path =
     (let v = (case declared_version env r of None \<Rightarrow> Fin (- 404) | Some v \<Rightarrow> v);
          this3 = \<lparr>mPath = path, mVersion = v, mViews = Mapping.empty\<rparr>
      in if v = Fin (- 404)
         then (Throw (ThemeException (Some path) (VersionTagMissing CURRENT_THEME_VERSION)), this3)
         else if float_lt v (Fin 3)
         then (Throw (ThemeException (Some path) (VersionTooOld v MINIMUM_THEME_VERSION)), this3)
         else loadFile_views env this3 path (view_nodes r))"
proof -
  from assms obtain doc where ex: "fs_exists env path" and doc: "load_file env path = Inr doc"
    and r: "child doc ''theme'' = Some r"
    by (auto simp: theme_root_def split: if_splits sum.splits)
  have reset: "this\<lparr>mPath := path, mVersion := Fin 0, mViews := Mapping.empty, mVersion := w\<rparr> =
      \<lparr>mPath = path, mVersion = w, mViews = Mapping.empty\<rparr>" for w
    by (cases this) simp
  show ?thesis
    using ex doc r
    by (simp add: loadFile_def Let_def as_float_version reset float_eq_iff view_nodes_def
        MINIMUM_THEME_VERSION_def)
qed

lemma view_ok_iff:
  "view_ok env path n \<longleftrightarrow> (\<exists>nm view. attribute n ''name'' = Some nm \<and> parseView env path n = Ok view)"
  by (auto simp: view_ok_def split: outcome.splits)

text \<open>
  Claim C2, as amended. For a document with a root theme tag: when the \<^verbatim>\<open><version>\<close> tag is
  absent (or holds no text) the load fails with the version-missing error; when the declared
  version is strictly less than 3 and is not \<open>-404\<close>, the load fails with the
  version-too-old error, which reports the declared and the minimum version; when the
  declared version is 3 and every view node is valid, the load succeeds.
\<close>

theorem loadFile_version_checks:
  "(theme_root env1 path1 = Some root1 \<and> declared_version env1 root1 = None \<longrightarrow>
      fst (loadFile env1 this1 path1) =
        Throw (ThemeException (Some path1) (VersionTagMissing CURRENT_THEME_VERSION)))
   \<and> (theme_root env2 path2 = Some root2 \<and> declared_version env2 root2 = Some v
        \<and> float_lt v (Fin 3) \<and> v \<noteq> Fin (- 404) \<longrightarrow>
      fst (loadFile env2 this2 path2) =
        Throw (ThemeException (Some path2) (VersionTooOld v MINIMUM_THEME_VERSION)))
   \<and> (theme_root env3 path3 = Some root3 \<and> declared_version env3 root3 = Some (Fin 3)
        \<and> list_all (view_ok env3 path3) (view_nodes root3) \<longrightarrow>
      fst (loadFile env3 this3 path3) = Ok ())"
proof (intro conjI impI)
  assume "theme_root env1 path1 = Some root1 \<and> declared_version env1 root1 = None"
  then show "fst (loadFile env1 this1 path1) =
      Throw (ThemeException (Some path1) (VersionTagMissing CURRENT_THEME_VERSION))"
    by (simp add: loadFile_document)
next
  assume "theme_root env2 path2 = Some root2 \<and> declared_version env2 root2 = Some v
      \<and> float_lt v (Fin 3) \<and> v \<noteq> Fin (- 404)"
  then show "fst (loadFile env2 this2 path2) =
      Throw (ThemeException (Some path2) (VersionTooOld v MINIMUM_THEME_VERSION))"
    by (simp add: loadFile_document)
next
  assume a: "theme_root env3 path3 = Some root3 \<and> declared_version env3 root3 = Some (Fin 3)
      \<and> list_all (view_ok env3 path3) (view_nodes root3)"
  let ?s = "\<lparr>mPath = path3, mVersion = Fin 3, mViews = Mapping.empty\<rparr>"
  from a have "\<forall>n \<in> set (view_nodes root3). \<exists>nm view.
      attribute n ''name'' = Some nm \<and> parseView env3 (mPath ?s) n = Ok view"
    by (simp add: list_all_iff view_ok_iff)
  then have "fst (loadFile_views env3 ?s path3 (view_nodes root3)) = Ok ()"
    by (rule loadFile_views_succeeds)
  with a show "fst (loadFile env3 this3 path3) = Ok ()"
    by (simp add: loadFile_document)
qed

theorem loadFile_version_checks_witness:
  "fst (loadFile (one_file no_version_doc) ThemeData_new theme_path) =
     Throw (ThemeException (Some theme_path) (VersionTagMissing 3))
   \<and> fst (loadFile (one_file (theme_doc ''2'' [basic_view])) ThemeData_new theme_path) =
       Throw (ThemeException (Some theme_path) (VersionTooOld (Fin 2) 3))
   \<and> fst (loadFile (one_file (theme_doc ''3'' [basic_view])) ThemeData_new theme_path) = Ok ()"
proof -
  have 1: "theme_root (one_file no_version_doc) theme_path = Some (hd no_version_doc)
      \<and> declared_version (one_file no_version_doc) (hd no_version_doc) = None"
    by (simp add: platform_simps doc_simps no_version_doc_def)
  have 2: "theme_root (one_file (theme_doc ''2'' [basic_view])) theme_path
        = Some (hd (theme_doc ''2'' [basic_view]))
      \<and> declared_version (one_file (theme_doc ''2'' [basic_view])) (hd (theme_doc ''2'' [basic_view]))
        = Some (Fin 2)
      \<and> float_lt (Fin 2) (Fin 3) \<and> Fin 2 \<noteq> Fin (- 404)"
    by (simp add: platform_simps doc_simps)
  have 3: "theme_root (one_file (theme_doc ''3'' [basic_view])) theme_path
        = Some (hd (theme_doc ''3'' [basic_view]))
      \<and> declared_version (one_file (theme_doc ''3'' [basic_view])) (hd (theme_doc ''3'' [basic_view]))
        = Some (Fin 3)
      \<and> list_all (view_ok (one_file (theme_doc ''3'' [basic_view])) theme_path)
          (view_nodes (hd (theme_doc ''3'' [basic_view])))"
    by (simp add: platform_simps doc_simps parse_simps)
  show ?thesis
    using loadFile_version_checks [of "one_file no_version_doc" theme_path "hd no_version_doc"
        ThemeData_new
        "one_file (theme_doc ''2'' [basic_view])" theme_path "hd (theme_doc ''2'' [basic_view])"
        "Fin 2" ThemeData_new
        "one_file (theme_doc ''3'' [basic_view])" theme_path "hd (theme_doc ''3'' [basic_view])"
        ThemeData_new] 1 2 3
    by (simp add: CURRENT_THEME_VERSION_def MINIMUM_THEME_VERSION_def)
qed

text \<open>
  Claim C2 as stated fails: a theme that declares version \<open>-404\<close>, which is less than 3, is
  not refused with the version-too-old error.
\<close>

theorem loadFile_too_old_counterexample:
  "theme_root (one_file (theme_doc ''-404'' [basic_view])) theme_path
     = Some (hd (theme_doc ''-404'' [basic_view]))
   \<and> declared_version (one_file (theme_doc ''-404'' [basic_view]))
       (hd (theme_doc ''-404'' [basic_view])) = Some (Fin (- 404))
   \<and> float_lt (Fin (- 404)) (Fin 3)
   \<and> fst (loadFile (one_file (theme_doc ''-404'' [basic_view])) ThemeData_new theme_path) \<noteq>
       Throw (ThemeException (Some theme_path) (VersionTooOld (Fin (- 404)) MINIMUM_THEME_VERSION))"
  by (simp add: platform_simps doc_simps loadFile_def as_float_def)

text \<open>
  Claim C10. When the document has a root theme tag and its \<^verbatim>\<open><version>\<close> tag is present,
  with a text that denotes the float \<open>-404\<close>, the load throws the version-tag-missing error and
  not the version-too-old error: \<open>-404\<close> is also the value that stands for an absent tag.
\<close>

theorem loadFile_sentinel_collision:
  assumes "theme_root env path = Some rootNode"
    and "child (children rootNode) ''version'' = Some versionNode"
    and "text_data versionNode = Some txt"
    and "strtof env txt = Fin (- 404)"
  shows "fst (loadFile env this path) =
           Throw (ThemeException (Some path) (VersionTagMissing CURRENT_THEME_VERSION))
         \<and> fst (loadFile env this path) \<noteq>
           Throw (ThemeException (Some path) (VersionTooOld (Fin (- 404)) MINIMUM_THEME_VERSION))"
  using assms by (simp add: loadFile_document declared_version_def)

theorem loadFile_sentinel_collision_witness:
  "fst (loadFile (one_file (theme_doc ''-404'' [basic_view])) loaded_store theme_path) =
     Throw (ThemeException (Some theme_path) (VersionTagMissing 3))"
proof -
  let ?doc = "theme_doc ''-404'' [basic_view]"
  have 1: "theme_root (one_file ?doc) theme_path = Some (hd ?doc)"
    by (simp add: platform_simps doc_simps)
  have 2: "child (children (hd ?doc)) ''version'' = Some (Element ''version'' [] [PCData ''-404''])"
    by (simp add: doc_simps)
  have 3: "text_data (Element ''version'' [] [PCData ''-404'']) = Some ''-404''"
    by simp
  have 4: "strtof (one_file ?doc) ''-404'' = Fin (- 404)"
    by (simp add: platform_simps)
  show ?thesis
    using loadFile_sentinel_collision [OF 1 2 3 4, of loaded_store]
    by (simp add: CURRENT_THEME_VERSION_def)
qed

subsection \<open>Geometry pairs\<close>

lemma str_find_none: "c \<notin> set s \<Longrightarrow> str_find s c = None"
  by (simp add: str_find_def)

lemma str_find_first:
  assumes "c \<notin> set a"
  shows "str_find (a @ c # b) c = Some (length a)"
proof -
  have "takeWhile (\<lambda>x. x \<noteq> c) a = a"
    using assms by (auto simp: takeWhile_eq_all_conv)
  then have "takeWhile (\<lambda>x. x \<noteq> c) (a @ c # b) = a"
    by (simp add: takeWhile_tail)
  then show ?thesis
    by (simp add: str_find_def)
qed

lemma property_ok_iff:
  "property_ok env path tm n \<longleftrightarrow>
     (\<exists>ty v. tm (node_name n) = Some ty \<and> parseProperty env path ty n = Ok v)"
  by (auto simp: property_ok_def split: option.splits outcome.splits)

lemma parseElement_loop_prefix:
  assumes "list_all (property_ok env path tm) pre"
  shows "\<exists>el'. parseElement_loop env path rn tm el pre = Ok el'"
  using assms by (intro parseElement_loop_succeeds) (simp add: list_all_iff property_ok_iff)

lemma parseElement_first_failure:
  assumes "children e = pre @ n # post" and "list_all (property_ok env path tm) pre"
    and "tm (node_name n) = Some ty" and "parseProperty env path ty n = Throw ex"
  shows "parseElement env path e tm = Throw ex"
proof -
  obtain el' where "parseElement_loop env path (node_name e) tm
      \<lparr>extra = attribute_as_bool e ''extra'' False, type = [], properties = Mapping.empty\<rparr> pre
      = Ok el'"
    using parseElement_loop_prefix [OF assms(2)] by blast
  then show ?thesis
    using assms(1,3,4) by (simp add: parseElement_def parseElement_loop_append)
qed

text \<open>
  Claim C4. A geometry-pair token without a space fails with the invalid-normalized-pair
  error, and the element that holds it fails with it. A token with a space is split at
  its first space, and the part before it and the part from it on are each read as a float
  by the C library; so \<^verbatim>\<open>"0.5 0.25"\<close> is the pair (0.5, 0.25) wherever the library reads
  \<^verbatim>\<open>"0.5"\<close> as 0.5 and \<^verbatim>\<open>" 0.25"\<close> as 0.25. (A part without a numeral reads as 0 on the
  concrete platform, as in the example that follows.)
\<close>

theorem parse_normalized_pair:
  "(CHR '' '' \<notin> set (as_string n1) \<longrightarrow>
      parseProperty env path NORMALIZED_PAIR n1 =
        Throw (ThemeException (Some path) (InvalidNormalizedPair (as_string n1))))
   \<and> (CHR '' '' \<notin> set (as_string n2) \<and> typeMap (node_name n2) = Some NORMALIZED_PAIR
        \<and> children e = pre @ n2 # post \<and> list_all (property_ok env path typeMap) pre \<longrightarrow>
      parseElement env path e typeMap =
        Throw (ThemeException (Some path) (InvalidNormalizedPair (as_string n2))))
   \<and> (as_string n3 = a @ CHR '' '' # b \<and> CHR '' '' \<notin> set a \<longrightarrow>
      parseProperty env path NORMALIZED_PAIR n3 =
        Ok (Vector2f (strtof env a) (strtof env (CHR '' '' # b))))
   \<and> (as_string n4 = ''0.5 0.25'' \<and> strtof env ''0.5'' = Fin (1 / 2)
        \<and> strtof env '' 0.25'' = Fin (1 / 4) \<longrightarrow>
      parseProperty env path NORMALIZED_PAIR n4 = Ok (Vector2f (Fin (1 / 2)) (Fin (1 / 4))))"
proof (intro conjI impI)
  assume "CHR '' '' \<notin> set (as_string n1)"
  then show "parseProperty env path NORMALIZED_PAIR n1 =
      Throw (ThemeException (Some path) (InvalidNormalizedPair (as_string n1)))"
    by (simp add: parseProperty_def str_find_none)
next
  assume a: "CHR '' '' \<notin> set (as_string n2) \<and> typeMap (node_name n2) = Some NORMALIZED_PAIR
      \<and> children e = pre @ n2 # post \<and> list_all (property_ok env path typeMap) pre"
  then have thrown: "parseProperty env path NORMALIZED_PAIR n2 =
      Throw (ThemeException (Some path) (InvalidNormalizedPair (as_string n2)))"
    by (simp add: parseProperty_def str_find_none)
  from a have kids: "children e = pre @ n2 # post"
    and before: "list_all (property_ok env path typeMap) pre"
    and ty: "typeMap (node_name n2) = Some NORMALIZED_PAIR"
    by blast+
  show "parseElement env path e typeMap =
      Throw (ThemeException (Some path) (InvalidNormalizedPair (as_string n2)))"
    by (rule parseElement_first_failure [OF kids before ty thrown])
next
  assume "as_string n3 = a @ CHR '' '' # b \<and> CHR '' '' \<notin> set a"
  then show "parseProperty env path NORMALIZED_PAIR n3 =
      Ok (Vector2f (strtof env a) (strtof env (CHR '' '' # b)))"
    by (simp add: parseProperty_def str_find_first)
next
  assume a: "as_string n4 = ''0.5 0.25'' \<and> strtof env ''0.5'' = Fin (1 / 2)
      \<and> strtof env '' 0.25'' = Fin (1 / 4)"
  have "str_find ''0.5 0.25'' CHR '' '' = Some 3"
    using str_find_first [of "CHR '' ''" "''0.5''" "''0.25''"] by simp
  with a show "parseProperty env path NORMALIZED_PAIR n4 = Ok (Vector2f (Fin (1 / 2)) (Fin (1 / 4)))"
    by (simp add: parseProperty_def)
qed

theorem parse_normalized_pair_witness:
  "parseProperty (one_file []) theme_path NORMALIZED_PAIR (pair_node ''0.5'') =
     Throw (ThemeException (Some theme_path) (InvalidNormalizedPair ''0.5''))
   \<and> parseElement (one_file []) theme_path
       (Element ''image'' [(''name'', ''logo'')] [pair_node ''0.1 0.2'', pair_node ''0.5''])
       (map_of [(''pos'', NORMALIZED_PAIR)]) =
     Throw (ThemeException (Some theme_path) (InvalidNormalizedPair ''0.5''))
   \<and> parseProperty (one_file []) theme_path NORMALIZED_PAIR (pair_node ''wide 7.5 1'') =
       Ok (Vector2f (Fin 0) (Fin (15 / 2)))
   \<and> parseProperty (one_file []) theme_path NORMALIZED_PAIR (pair_node ''0.5 0.25'') =
       Ok (Vector2f (Fin (1 / 2)) (Fin (1 / 4)))"
proof -
  let ?env = "one_file []"
  let ?tm = "map_of [(''pos'', NORMALIZED_PAIR)]"
  let ?e = "Element ''image'' [(''name'', ''logo'')] [pair_node ''0.1 0.2'', pair_node ''0.5'']"
  have 1: "CHR '' '' \<notin> set (as_string (pair_node ''0.5''))"
    by (simp add: pair_node_def as_string_def)
  have 2: "CHR '' '' \<notin> set (as_string (pair_node ''0.5''))
      \<and> ?tm (node_name (pair_node ''0.5'')) = Some NORMALIZED_PAIR
      \<and> children ?e = [pair_node ''0.1 0.2''] @ pair_node ''0.5'' # []
      \<and> list_all (property_ok ?env theme_path ?tm) [pair_node ''0.1 0.2'']"
    by (simp add: pair_node_def as_string_def property_ok_def parseProperty_def str_find_def)
  have 3: "as_string (pair_node ''wide 7.5 1'') = ''wide'' @ CHR '' '' # ''7.5 1''
      \<and> CHR '' '' \<notin> set ''wide''"
    by (simp add: pair_node_def as_string_def)
  have 4: "as_string (pair_node ''0.5 0.25'') = ''0.5 0.25''
      \<and> strtof ?env ''0.5'' = Fin (1 / 2) \<and> strtof ?env '' 0.25'' = Fin (1 / 4)"
    by (simp add: pair_node_def as_string_def platform_simps)
  have 5: "strtof ?env ''wide'' = Fin 0 \<and> strtof ?env '' 7.5 1'' = Fin (15 / 2)"
    by (simp add: platform_simps)
  show ?thesis
    using parse_normalized_pair [of "pair_node ''0.5''" ?env theme_path "pair_node ''0.5''" ?tm ?e
        "[pair_node ''0.1 0.2'']" "[]" "pair_node ''wide 7.5 1''" "''wide''" "''7.5 1''"
        "pair_node ''0.5 0.25''"] 1 2 3 4 5
    by (simp add: pair_node_def as_string_def)
qed

subsection \<open>Path tokens\<close>

lemma first_element_dot_or_tilde:
  assumes "c \<noteq> CHR ''/''"
  shows "first_element s = [c] \<longleftrightarrow> s = [c] \<or> take 2 s = [c, CHR ''/'']"
proof (cases s)
  case Nil
  then show ?thesis by (simp add: first_element_def)
next
  case (Cons x xs)
  show ?thesis
  proof (cases xs)
    case Nil
    with Cons assms show ?thesis
      by (auto simp: first_element_def is_separator_def)
  next
    case (Cons y ys)
    with \<open>s = x # xs\<close> assms show ?thesis
      by (cases ys) (auto simp: first_element_def is_separator_def)
  qed
qed

lemma path_append_remainder:
  assumes "first_element s = ''.''"
  shows "path_append p (tl s) = p @ tl s"
proof -
  from assms have "s = ''.'' \<or> take 2 s = ''./''"
    by (simp add: first_element_dot_or_tilde)
  then have "tl s = [] \<or> hd (tl s) = CHR ''/''"
    by (cases s; cases "tl s") auto
  then show ?thesis
    by (auto simp: path_append_def is_separator_def)
qed

lemma first_element_nonempty: "first_element s = [c] \<Longrightarrow> s \<noteq> []"
  by (auto simp: first_element_def)

text \<open>
  What \<^verbatim>\<open>resolvePath\<close> does with every token that is not null. An empty token is returned
  unchanged; a token whose first path component is \<^verbatim>\<open>.\<close> resolves to the parent directory of
  the theme file followed by the token without its first character; a token whose first
  path component is \<^verbatim>\<open>~\<close> resolves to the home directory followed by the token without its
  first character; any other token is returned unchanged. The first component is \<^verbatim>\<open>.\<close>
  exactly when the token is \<^verbatim>\<open>.\<close> or starts with \<^verbatim>\<open>./\<close>, and likewise for \<^verbatim>\<open>~\<close>: a name that
  merely starts with one of the two characters is left alone.
\<close>

lemma resolvePath_tokens:
  "resolvePath env (Some []) relative = Ok []
   \<and> (first_element s1 = ''.'' \<longrightarrow>
        resolvePath env (Some s1) relative = Ok (parent_path env relative @ tl s1))
   \<and> (first_element s2 = ''~'' \<longrightarrow>
        resolvePath env (Some s2) relative = Ok (getHomePath env @ tl s2))
   \<and> (first_element s3 \<noteq> ''.'' \<and> first_element s3 \<noteq> ''~'' \<longrightarrow>
        resolvePath env (Some s3) relative = Ok s3)
   \<and> (first_element s4 = ''.'' \<longleftrightarrow> s4 = ''.'' \<or> take 2 s4 = ''./'')
   \<and> (first_element s4 = ''~'' \<longleftrightarrow> s4 = ''~'' \<or> take 2 s4 = ''~/'')"
proof (intro conjI impI)
  show "resolvePath env (Some []) relative = Ok []"
    by (simp add: resolvePath_def)
next
  assume a: "first_element s1 = ''.''"
  then have "s1 \<noteq> []" by (rule first_element_nonempty)
  with a show "resolvePath env (Some s1) relative = Ok (parent_path env relative @ tl s1)"
    by (simp add: resolvePath_def generic_string_def path_append_remainder)
next
  assume a: "first_element s2 = ''~''"
  then have "s2 \<noteq> []" by (rule first_element_nonempty)
  with a show "resolvePath env (Some s2) relative = Ok (getHomePath env @ tl s2)"
    by (simp add: resolvePath_def generic_string_def)
next
  assume "first_element s3 \<noteq> ''.'' \<and> first_element s3 \<noteq> ''~''"
  then show "resolvePath env (Some s3) relative = Ok s3"
    by (simp add: resolvePath_def generic_string_def)
next
  show "first_element s4 = ''.'' \<longleftrightarrow> s4 = ''.'' \<or> take 2 s4 = ''./''"
    by (simp add: first_element_dot_or_tilde)
next
  show "first_element s4 = ''~'' \<longleftrightarrow> s4 = ''~'' \<or> take 2 s4 = ''~/''"
    by (simp add: first_element_dot_or_tilde)
qed

lemma resolvePath_tokens_examples:
  "resolvePath (one_file []) (Some ''./art/logo.png'') theme_path = Ok ''/themes/simple/art/logo.png''
   \<and> resolvePath (one_file []) (Some ''~/art/logo.png'') theme_path = Ok ''/home/pi/art/logo.png''
   \<and> resolvePath (one_file []) (Some ''.art/logo.png'') theme_path = Ok ''.art/logo.png''
   \<and> resolvePath (one_file []) (Some ''../logo.png'') theme_path = Ok ''../logo.png''
   \<and> resolvePath (one_file []) (Some ''~art/logo.png'') theme_path = Ok ''~art/logo.png''"
proof -
  have 1: "first_element ''./art/logo.png'' = ''.''"
    and 2: "first_element ''~/art/logo.png'' = ''~''"
    and 3: "first_element ''.art/logo.png'' \<noteq> ''.'' \<and> first_element ''.art/logo.png'' \<noteq> ''~''"
    and 4: "first_element ''../logo.png'' \<noteq> ''.'' \<and> first_element ''../logo.png'' \<noteq> ''~''"
    and 5: "first_element ''~art/logo.png'' \<noteq> ''.'' \<and> first_element ''~art/logo.png'' \<noteq> ''~''"
    by (simp_all add: first_element_def is_separator_def)
  have env: "parent_path (one_file []) theme_path = ''/themes/simple''"
    "getHomePath (one_file []) = ''/home/pi''"
    by (simp_all add: platform_simps)
  show ?thesis
    using resolvePath_tokens [of "one_file []" theme_path "''./art/logo.png''" "''~/art/logo.png''"
        "''.art/logo.png''" "''.''"]
      resolvePath_tokens [of "one_file []" theme_path "''.''" "''~''" "''../logo.png''" "''.''"]
      resolvePath_tokens [of "one_file []" theme_path "''.''" "''~''" "''~art/logo.png''" "''.''"]
      1 2 3 4 5 env
    by simp
qed

text \<open>
  Claim C5. An empty or null path token is returned unchanged, and the other tokens are
  resolved as above. For the null token the code does not do so: its guard tests for the
  null pointer and then returns it as the \<^verbatim>\<open>std::string\<close> result, which has no defined
  behaviour, so no token is returned. (\<^verbatim>\<open>getHexColor\<close> meets a null token with an
  exception.)
\<close>

theorem resolvePath_null_undefined:
  "resolvePath env None relative = Undefined"
  by (simp add: resolvePath_def)

subsection \<open>A property set twice\<close>

text \<open>
  Claim C8. An element node with two property children of the same name parses without
  any error for the repetition: when each of its property children is valid by itself the
  element parses, and the value stored under the name is that of the later child (the last
  child of that name).
\<close>

theorem parseElement_last_wins:
  assumes "children e = pre @ a # mid @ b # post"
    and "node_name a = node_name b"
    and "\<forall>c \<in> set post. node_name c \<noteq> node_name b"
    and "list_all (property_ok env path typeMap) (children e)"
  shows "\<exists>ty v element.
           typeMap (node_name b) = Some ty \<and> parseProperty env path ty b = Ok v
           \<and> parseElement env path e typeMap = Ok element
           \<and> Mapping.lookup (properties element) (node_name b) = Some v"
proof -
  let ?el0 = "\<lparr>extra = attribute_as_bool e ''extra'' False, type = [],
      properties = Mapping.empty\<rparr>"
  from assms(1,4) have ok: "list_all (property_ok env path typeMap) (pre @ a # mid)"
    "property_ok env path typeMap b" "list_all (property_ok env path typeMap) post"
    by simp_all
  from ok(2) obtain ty v where ty: "typeMap (node_name b) = Some ty"
    and v: "parseProperty env path ty b = Ok v"
    by (auto simp: property_ok_iff)
  obtain el1 where el1: "parseElement_loop env path (node_name e) typeMap ?el0 (pre @ a # mid) = Ok el1"
    using parseElement_loop_prefix [OF ok(1)] by blast
  let ?el2 = "el1\<lparr>properties := Mapping.update (node_name b) v (properties el1)\<rparr>"
  obtain el3 where el3: "parseElement_loop env path (node_name e) typeMap ?el2 post = Ok el3"
    using parseElement_loop_prefix [OF ok(3)] by blast
  have "Mapping.lookup (properties el3) (node_name b) = Mapping.lookup (properties ?el2) (node_name b)"
    using el3 assms(3) by (rule parseElement_loop_other)
  then have stored: "Mapping.lookup (properties el3) (node_name b) = Some v"
    by simp
  have "children e = (pre @ a # mid) @ b # post"
    using assms(1) by simp
  then have "parseElement env path e typeMap = Ok el3"
    using el1 el3 ty v
    by (simp only: parseElement_def parseElement_loop_append)
       (simp add: parseElement_loop_append)
  with ty v stored show ?thesis by blast
qed

theorem parseElement_last_wins_witness:
  "\<exists>element. parseElement (one_file []) theme_path twice_element (the (sElementMap ''image''))
       = Ok element
     \<and> Mapping.lookup (properties element) ''pos'' = Some (Vector2f (Fin (1 / 2)) (Fin (1 / 4)))"
proof -
  let ?env = "one_file []"
  let ?tm = "the (sElementMap ''image'')"
  have kids: "children twice_element =
      [] @ pair_node ''0.1 0.2'' # [Element ''tile'' [] [PCData ''true'']] @ pair_node ''0.5 0.25'' # []"
    by (simp add: twice_element_def)
  have same: "node_name (pair_node ''0.1 0.2'') = node_name (pair_node ''0.5 0.25'')"
    by (simp add: pair_node_def)
  have last: "\<forall>c \<in> set []. node_name c \<noteq> node_name (pair_node ''0.5 0.25'')"
    by simp
  have valid: "list_all (property_ok ?env theme_path ?tm) (children twice_element)"
    by (simp add: twice_element_def pair_node_def property_ok_def sElementMap_def
        parseProperty_def as_string_def str_find_def as_bool_def)
  have ty: "?tm (node_name (pair_node ''0.5 0.25'')) = Some NORMALIZED_PAIR"
    by (simp add: pair_node_def sElementMap_def)
  have v: "parseProperty ?env theme_path NORMALIZED_PAIR (pair_node ''0.5 0.25'') =
      Ok (Vector2f (Fin (1 / 2)) (Fin (1 / 4)))"
    by (simp add: pair_node_def parseProperty_def as_string_def str_find_def platform_simps)
  from parseElement_last_wins [OF kids same last valid] ty v
  show ?thesis
    by (auto simp: pair_node_def)
qed

subsection \<open>What a successful load stores\<close>

lemma loadFile_success:
  assumes "theme_root env path = Some r" and "fst (loadFile env this path) = Ok ()"
  obtains v where "declared_version env r = Some v"
    and "loadFile env this path =
      loadFile_views env \<lparr>mPath = path, mVersion = v, mViews = Mapping.empty\<rparr> path (view_nodes r)"
  using assms
  by (cases "declared_version env r")
     (auto simp: loadFile_document Let_def split: if_splits)

lemma loadFile_views_result:
  assumes "fst (loadFile_views env this path xs) = Ok ()"
  shows "loadFile_views env this path xs = (Ok (), snd (loadFile_views env this path xs))"
  using assms by (cases "loadFile_views env this path xs") simp

lemma loadFile_views_split:
  assumes "loadFile_views env this path (xs @ ys) = (Ok u, this')"
  obtains mid where "loadFile_views env this path xs = (Ok (), mid)"
    and "loadFile_views env mid path ys = (Ok u, this')"
  using assms
  by (cases "loadFile_views env this path xs")
     (auto simp: loadFile_views_append split: outcome.splits)

lemma loadFile_views_only:
  assumes "loadFile_views env this path xs = (Ok u, this')"
    and "filter (\<lambda>k. attribute k ''name'' = Some vn) xs = [n]"
    and "parseView env (mPath this) n = Ok view"
  shows "Mapping.lookup (mViews this') vn =
           (if Mapping.is_empty (elements view) then Mapping.lookup (mViews this) vn
            else Some view)"
proof -
  from assms(2) obtain pre post where xs: "xs = pre @ n # post"
    and pre: "\<forall>k \<in> set pre. attribute k ''name'' \<noteq> Some vn"
    and n: "attribute n ''name'' = Some vn"
    and post: "\<forall>k \<in> set post. attribute k ''name'' \<noteq> Some vn"
    by (auto simp: filter_eq_Cons_iff filter_empty_conv empty_filter_conv)
  from assms(1) xs obtain mid where
    1: "loadFile_views env this path pre = (Ok (), mid)"
    and 2: "loadFile_views env mid path (n # post) = (Ok u, this')"
    by (auto elim: loadFile_views_split)
  have mid: "mPath mid = mPath this"
    using loadFile_views_frame [OF 1] by simp
  from 2 n assms(3) mid
  have 3: "loadFile_views env (store_view mid vn view) path post = (Ok u, this')"
    by simp
  have "Mapping.lookup (mViews this') vn = Mapping.lookup (mViews (store_view mid vn view)) vn"
    using 3 post by (rule loadFile_views_other)
  moreover have "Mapping.lookup (mViews mid) vn = Mapping.lookup (mViews this) vn"
    using 1 pre by (rule loadFile_views_other)
  ultimately show ?thesis
    by (simp add: store_view_lookup)
qed

text \<open>
  Claim C9. After a successful load, every value stored under a property name in an element
  of a view holds the alternative of the variant that belongs to the type the Schema
  Registry declares for that property name under the element's type: the tag of the
  element node the stored element was parsed from.
\<close>

theorem stored_values_typed:
  assumes "theme_root env path = Some r"
    and "fst (loadFile env this path) = Ok ()"
    and "Mapping.lookup (mViews (snd (loadFile env this path))) vn = Some view"
    and "Mapping.lookup (elements view) en = Some element"
    and "Mapping.lookup (properties element) p = Some v"
  shows "\<exists>viewNode \<in> set (view_nodes r). \<exists>elementNode \<in> set (children viewNode).
           \<exists>typeMap ty.
             attribute viewNode ''name'' = Some vn \<and> parseView env path viewNode = Ok view
             \<and> attribute elementNode ''name'' = Some en
             \<and> sElementMap (node_name elementNode) = Some typeMap
             \<and> parseElement env path elementNode typeMap = Ok element
             \<and> typeMap p = Some ty \<and> active_tag v = declared_tag ty"
proof -
  from assms(1,2) obtain ver where
    load: "loadFile env this path =
      loadFile_views env \<lparr>mPath = path, mVersion = ver, mViews = Mapping.empty\<rparr> path (view_nodes r)"
    by (rule loadFile_success)
  let ?s = "\<lparr>mPath = path, mVersion = ver, mViews = Mapping.empty\<rparr>"
  let ?res = "loadFile_views env ?s path (view_nodes r)"
  have res: "?res = (Ok (), snd ?res)"
    using assms(2) load by (intro loadFile_views_result) simp
  have "Mapping.lookup (mViews (snd ?res)) vn = Some view"
    using assms(3) load by simp
  with loadFile_views_stored [OF res, of vn view]
  obtain n where n: "n \<in> set (view_nodes r)" "attribute n ''name'' = Some vn"
    and view: "parseView env path n = Ok view"
    by auto
  from view have "parseView_loop env path \<lparr>elements = Mapping.empty, mExtrasDirty = True\<rparr>
      (children n) = Ok view"
    by (simp add: parseView_def)
  from parseView_loop_elements [OF this assms(4)]
  obtain c tm where c: "c \<in> set (children n)" "attribute c ''name'' = Some en"
    and tm: "sElementMap (node_name c) = Some tm"
    and el: "parseElement env path c tm = Ok element"
    by auto
  from el have "parseElement_loop env path (node_name c) tm
      \<lparr>extra = attribute_as_bool c ''extra'' False, type = [], properties = Mapping.empty\<rparr>
      (children c) = Ok element"
    by (simp add: parseElement_def)
  from parseElement_loop_typed [OF this assms(5)]
  obtain q ty where "tm p = Some ty" "parseProperty env path ty q = Ok v"
    by auto
  then have "tm p = Some ty \<and> active_tag v = declared_tag ty"
    by (simp add: parseProperty_tag)
  with n view c tm el show ?thesis by blast
qed

lemma basic_doc_loads:
  "loadFile (one_file (theme_doc ''3'' (basic_view # others))) this theme_path =
     loadFile_views (one_file (theme_doc ''3'' (basic_view # others)))
       \<lparr>mPath = theme_path, mVersion = Fin 3,
        mViews = Mapping.update ''basic'' basic_parsed Mapping.empty\<rparr>
       theme_path (children_named others ''view'')"
  by (simp add: loadFile_def platform_simps doc_simps parse_simps basic_parsed_def logo_parsed_def
      store_overwritten)

theorem stored_values_typed_witness:
  "\<exists>viewNode \<in> set (view_nodes (hd (theme_doc ''3'' [basic_view]))).
     \<exists>elementNode \<in> set (children viewNode). \<exists>typeMap ty.
       attribute viewNode ''name'' = Some ''basic''
       \<and> parseView (one_file (theme_doc ''3'' [basic_view])) theme_path viewNode = Ok basic_parsed
       \<and> attribute elementNode ''name'' = Some ''logo''
       \<and> sElementMap (node_name elementNode) = Some typeMap
       \<and> parseElement (one_file (theme_doc ''3'' [basic_view])) theme_path elementNode typeMap
           = Ok logo_parsed
       \<and> typeMap ''pos'' = Some ty
       \<and> active_tag (Vector2f (Fin (1 / 2)) (Fin (1 / 4))) = declared_tag ty"
proof -
  let ?doc = "theme_doc ''3'' [basic_view]"
  let ?env = "one_file ?doc"
  have load: "loadFile ?env ThemeData_new theme_path =
      (Ok (), \<lparr>mPath = theme_path, mVersion = Fin 3,
                mViews = Mapping.update ''basic'' basic_parsed Mapping.empty\<rparr>)"
    by (simp add: basic_doc_loads children_named_def)
  have 1: "theme_root ?env theme_path = Some (hd ?doc)"
    by (simp add: platform_simps doc_simps)
  have 2: "fst (loadFile ?env ThemeData_new theme_path) = Ok ()"
    by (simp add: load)
  have 3: "Mapping.lookup (mViews (snd (loadFile ?env ThemeData_new theme_path))) ''basic''
      = Some basic_parsed"
    by (simp add: load)
  have 4: "Mapping.lookup (elements basic_parsed) ''logo'' = Some logo_parsed"
    by (simp add: basic_parsed_def)
  have 5: "Mapping.lookup (properties logo_parsed) ''pos'' = Some (Vector2f (Fin (1 / 2)) (Fin (1 / 4)))"
    by (simp add: logo_parsed_def Mapping.lookup_update')
  show ?thesis
    by (rule stored_values_typed [OF 1 2 3 4 5])
qed

text \<open>
  Claim C7, as amended. After a successful load, every view in the view mapping has at
  least one element and is the parse of a view node of that name, so a view with no parsed
  element is never stored; every view node that yielded at least one element has its name
  in the mapping; and for a view node whose name no other view node of the document bears,
  the mapping holds its view under that name if and only if it yielded at least one
  element.
\<close>

theorem stored_views_nonempty:
  assumes "theme_root env path = Some r"
    and "fst (loadFile env this path) = Ok ()"
  shows "(\<forall>vn view. Mapping.lookup (mViews (snd (loadFile env this path))) vn = Some view \<longrightarrow>
            \<not> Mapping.is_empty (elements view)
            \<and> (\<exists>n \<in> set (view_nodes r).
                  attribute n ''name'' = Some vn \<and> parseView env path n = Ok view))
         \<and> (\<forall>n \<in> set (view_nodes r). \<exists>vn view.
              attribute n ''name'' = Some vn \<and> parseView env path n = Ok view
              \<and> (\<not> Mapping.is_empty (elements view) \<longrightarrow>
                   vn \<in> Mapping.keys (mViews (snd (loadFile env this path))))
              \<and> (filter (\<lambda>k. attribute k ''name'' = Some vn) (view_nodes r) = [n] \<longrightarrow>
                   Mapping.lookup (mViews (snd (loadFile env this path))) vn =
                     (if Mapping.is_empty (elements view) then None else Some view)))"
proof -
  from assms obtain ver where
    load: "loadFile env this path =
      loadFile_views env \<lparr>mPath = path, mVersion = ver, mViews = Mapping.empty\<rparr> path (view_nodes r)"
    by (rule loadFile_success)
  let ?s = "\<lparr>mPath = path, mVersion = ver, mViews = Mapping.empty\<rparr>"
  let ?res = "loadFile_views env ?s path (view_nodes r)"
  have res: "?res = (Ok (), snd ?res)"
    using assms(2) load by (intro loadFile_views_result) simp
  have stored: "\<not> Mapping.is_empty (elements view)
      \<and> (\<exists>n \<in> set (view_nodes r). attribute n ''name'' = Some vn \<and> parseView env path n = Ok view)"
    if "Mapping.lookup (mViews (snd ?res)) vn = Some view" for vn view
    using loadFile_views_stored [OF res that] by auto
  have node: "\<exists>vn view.
      attribute n ''name'' = Some vn \<and> parseView env path n = Ok view
      \<and> (\<not> Mapping.is_empty (elements view) \<longrightarrow> vn \<in> Mapping.keys (mViews (snd ?res)))
      \<and> (filter (\<lambda>k. attribute k ''name'' = Some vn) (view_nodes r) = [n] \<longrightarrow>
           Mapping.lookup (mViews (snd ?res)) vn =
             (if Mapping.is_empty (elements view) then None else Some view))"
    if n: "n \<in> set (view_nodes r)" for n
  proof -
    from loadFile_views_known [OF res] n obtain vn view
      where vn: "attribute n ''name'' = Some vn" and view: "parseView env path n = Ok view"
      by auto
    have kept: "vn \<in> Mapping.keys (mViews (snd ?res))" if "\<not> Mapping.is_empty (elements view)"
      using loadFile_views_kept [OF res n vn _ that] view by simp
    have only: "Mapping.lookup (mViews (snd ?res)) vn =
        (if Mapping.is_empty (elements view) then None else Some view)"
      if "filter (\<lambda>k. attribute k ''name'' = Some vn) (view_nodes r) = [n]"
      using loadFile_views_only [OF res that] view by simp
    from vn view kept only show ?thesis by blast
  qed
  from stored node show ?thesis
    unfolding load by blast
qed


theorem stored_views_nonempty_witness:
  "Mapping.lookup
     (mViews (snd (loadFile (one_file (theme_doc ''3'' [basic_view, empty_view])) loaded_store
        theme_path))) ''empty'' = None
   \<and> Mapping.lookup
     (mViews (snd (loadFile (one_file (theme_doc ''3'' [basic_view, empty_view])) loaded_store
        theme_path))) ''basic'' = Some basic_parsed"
proof -
  let ?doc = "theme_doc ''3'' [basic_view, empty_view]"
  let ?env = "one_file ?doc"
  let ?after = "snd (loadFile ?env loaded_store theme_path)"
  have 1: "theme_root ?env theme_path = Some (hd ?doc)"
    by (simp add: platform_simps doc_simps)
  have 2: "fst (loadFile ?env loaded_store theme_path) = Ok ()"
    by (simp add: basic_doc_loads children_named_def empty_view_def parseView_def store_view_def)
  have nodes: "view_nodes (hd ?doc) = [basic_view, empty_view]"
    by (simp add: doc_simps empty_view_def)
  have empty: "parseView ?env theme_path empty_view =
      Ok \<lparr>elements = Mapping.empty, mExtrasDirty = True\<rparr>"
    by (simp add: parseView_def empty_view_def)
  have basic: "parseView ?env theme_path basic_view = Ok basic_parsed"
    by (simp add: platform_simps doc_simps parse_simps basic_parsed_def logo_parsed_def)
  have names: "attribute empty_view ''name'' = Some ''empty''"
    "attribute basic_view ''name'' = Some ''basic''"
    by (simp_all add: empty_view_def basic_view_def)
  have only: "filter (\<lambda>k. attribute k ''name'' = Some ''empty'') (view_nodes (hd ?doc)) = [empty_view]"
    "filter (\<lambda>k. attribute k ''name'' = Some ''basic'') (view_nodes (hd ?doc)) = [basic_view]"
    by (simp_all add: nodes names)
  have filled: "\<not> Mapping.is_empty (elements basic_parsed)"
    by (simp add: basic_parsed_def)
  from stored_views_nonempty [OF 1 2]
  have all: "\<forall>n \<in> set (view_nodes (hd ?doc)). \<exists>vn view.
      attribute n ''name'' = Some vn \<and> parseView ?env theme_path n = Ok view
      \<and> (filter (\<lambda>k. attribute k ''name'' = Some vn) (view_nodes (hd ?doc)) = [n] \<longrightarrow>
           Mapping.lookup (mViews ?after) vn =
             (if Mapping.is_empty (elements view) then None else Some view))"
    by blast
  from all nodes have "\<exists>vn view.
      attribute empty_view ''name'' = Some vn \<and> parseView ?env theme_path empty_view = Ok view
      \<and> (filter (\<lambda>k. attribute k ''name'' = Some vn) (view_nodes (hd ?doc)) = [empty_view] \<longrightarrow>
           Mapping.lookup (mViews ?after) vn =
             (if Mapping.is_empty (elements view) then None else Some view))"
    by simp
  with names(1) empty only(1) have e: "Mapping.lookup (mViews ?after) ''empty'' = None"
    by auto
  from all nodes have "\<exists>vn view.
      attribute basic_view ''name'' = Some vn \<and> parseView ?env theme_path basic_view = Ok view
      \<and> (filter (\<lambda>k. attribute k ''name'' = Some vn) (view_nodes (hd ?doc)) = [basic_view] \<longrightarrow>
           Mapping.lookup (mViews ?after) vn =
             (if Mapping.is_empty (elements view) then None else Some view))"
    by simp
  with names(2) basic only(2) filled
  have b: "Mapping.lookup (mViews ?after) ''basic'' = Some basic_parsed"
    by auto
  from e b show ?thesis ..
qed

text \<open>
  Claim C7 as stated fails where two view nodes bear one name: a view node without any
  element is parsed, and still its name is in the view mapping, with the view of the
  earlier node.
\<close>

theorem empty_view_counterexample:
  "fst (loadFile (one_file (theme_doc ''3'' [basic_view, empty_basic_view])) ThemeData_new
          theme_path) = Ok ()
   \<and> attribute empty_basic_view ''name'' = Some ''basic''
   \<and> parseView (one_file (theme_doc ''3'' [basic_view, empty_basic_view])) theme_path
        empty_basic_view = Ok \<lparr>elements = Mapping.empty, mExtrasDirty = True\<rparr>
   \<and> Mapping.lookup
        (mViews (snd (loadFile (one_file (theme_doc ''3'' [basic_view, empty_basic_view]))
           ThemeData_new theme_path))) ''basic'' = Some basic_parsed"
  by (simp add: basic_doc_loads children_named_def empty_basic_view_def parseView_def
      store_view_def)

subsection \<open>Nodes the Schema Registry does not allow\<close>

lemma element_ok_iff:
  "element_ok env path c \<longleftrightarrow>
     (\<exists>nm tm el. attribute c ''name'' = Some nm \<and> sElementMap (node_name c) = Some tm
        \<and> parseElement env path c tm = Ok el)"
  by (auto simp: element_ok_def split: option.splits outcome.splits)

lemma parseView_loop_prefix:
  "list_all (element_ok env path) pre \<Longrightarrow> \<exists>view'. parseView_loop env path view pre = Ok view'"
  by (induction pre arbitrary: view) (auto simp: element_ok_iff)

lemma parseView_first_unknown:
  assumes "children v = pre @ c # post" and "list_all (element_ok env path) pre"
    and "attribute c ''name'' \<noteq> None" and "sElementMap (node_name c) = None"
  shows "parseView env path v =
           Throw (ThemeException (Some path) (UnknownElementType (node_name c)))"
proof -
  obtain view' where "parseView_loop env path
      \<lparr>elements = Mapping.empty, mExtrasDirty = True\<rparr> pre = Ok view'"
    using parseView_loop_prefix [OF assms(2)] by blast
  then show ?thesis
    using assms(1,3,4) by (auto simp: parseView_def parseView_loop_append)
qed

lemma parseView_first_failure:
  assumes "children v = pre @ c # post" and "list_all (element_ok env path) pre"
    and "attribute c ''name'' \<noteq> None" and "sElementMap (node_name c) = Some tm"
    and "parseElement env path c tm = Throw ex"
  shows "parseView env path v = Throw ex"
proof -
  obtain view' where "parseView_loop env path
      \<lparr>elements = Mapping.empty, mExtrasDirty = True\<rparr> pre = Ok view'"
    using parseView_loop_prefix [OF assms(2)] by blast
  then show ?thesis
    using assms(1,3,4,5) by (auto simp: parseView_def parseView_loop_append)
qed

lemma parseElement_first_unknown:
  assumes "children e = pre @ q # post" and "list_all (property_ok env path tm) pre"
    and "tm (node_name q) = None"
  shows "parseElement env path e tm =
           Throw (ThemeException (Some path) (UnknownPropertyType (node_name q) (node_name e)))"
proof -
  obtain el' where "parseElement_loop env path (node_name e) tm
      \<lparr>extra = attribute_as_bool e ''extra'' False, type = [], properties = Mapping.empty\<rparr> pre
      = Ok el'"
    using parseElement_loop_prefix [OF assms(2)] by blast
  then show ?thesis
    using assms(1,3) by (simp add: parseElement_def parseElement_loop_append)
qed

lemma loadFile_views_first_failure:
  assumes "xs = vpre @ v # vpost" and "list_all (view_ok env (mPath this)) vpre"
    and "attribute v ''name'' \<noteq> None" and "parseView env (mPath this) v = Throw ex"
  shows "fst (loadFile_views env this path xs) = Throw ex"
proof -
  have "fst (loadFile_views env this path vpre) = Ok ()"
    using assms(2) by (intro loadFile_views_succeeds) (simp add: list_all_iff view_ok_iff)
  then obtain mid where mid: "loadFile_views env this path vpre = (Ok (), mid)"
    by (cases "loadFile_views env this path vpre") simp
  then have "mPath mid = mPath this"
    using loadFile_views_frame by blast
  with mid assms(1,3,4) show ?thesis
    by (auto simp: loadFile_views_append)
qed

lemma loadFile_accepted:
  assumes "theme_root env path = Some r" and "version_accepted env r"
  shows "\<exists>v. loadFile env this path =
     loadFile_views env \<lparr>mPath = path, mVersion = v, mViews = Mapping.empty\<rparr> path (view_nodes r)"
  using assms
  by (auto simp: loadFile_document version_accepted_def float_eq_iff MINIMUM_THEME_VERSION_def
           split: option.splits)

lemma loadFile_defined: "fst (loadFile env this path) \<noteq> Undefined"
  by (simp add: loadFile_def Let_def loadFile_views_defined split: sum.splits option.splits)

lemma schema_mismatch_not_ok:
  assumes "sElementMap (node_name c) = Some tm" and "parseElement env path c tm = Ok el"
  shows "\<not> schema_mismatch c"
proof -
  from assms(2) have "parseElement_loop env path (node_name c) tm
      \<lparr>extra = attribute_as_bool c ''extra'' False, type = [], properties = Mapping.empty\<rparr>
      (children c) = Ok el"
    by (simp add: parseElement_def)
  from parseElement_loop_known [OF this] have "\<forall>q \<in> set (children c). tm (node_name q) \<noteq> None"
    by auto
  with assms(1) show ?thesis
    by (simp add: schema_mismatch_def list_ex_iff)
qed

lemma loadFile_mismatch_fails:
  assumes "theme_root env path = Some r" and "v \<in> set (view_nodes r)"
    and "c \<in> set (children v)" and "schema_mismatch c"
  shows "\<exists>ex. fst (loadFile env this path) = Throw ex"
proof -
  have "fst (loadFile env this path) \<noteq> Ok ()"
  proof
    assume ok: "fst (loadFile env this path) = Ok ()"
    from assms(1) ok obtain ver where
      load: "loadFile env this path =
        loadFile_views env \<lparr>mPath = path, mVersion = ver, mViews = Mapping.empty\<rparr> path
          (view_nodes r)"
      by (rule loadFile_success)
    let ?res = "loadFile_views env \<lparr>mPath = path, mVersion = ver, mViews = Mapping.empty\<rparr>
        path (view_nodes r)"
    have "?res = (Ok (), snd ?res)"
      using ok load by (intro loadFile_views_result) simp
    from loadFile_views_known [OF this] assms(2)
    obtain view where "parseView env path v = Ok view"
      by auto
    then have "parseView_loop env path \<lparr>elements = Mapping.empty, mExtrasDirty = True\<rparr>
        (children v) = Ok view"
      by (simp add: parseView_def)
    from parseView_loop_known [OF this] assms(3)
    obtain tm el where "sElementMap (node_name c) = Some tm" "parseElement env path c tm = Ok el"
      by auto
    then have "\<not> schema_mismatch c"
      by (rule schema_mismatch_not_ok)
    with assms(4) show False by simp
  qed
  with loadFile_defined [of env this path] show ?thesis
    by (cases "fst (loadFile env this path)") auto
qed

text \<open>
  Claim C6, as amended. When the parser reaches an element child that carries its name
  attribute and whose tag is not an element type of the Schema Registry (every node before
  it was accepted), the whole load fails at once with the unknown-element-type error; when
  it reaches, in such an element of a known type, a property child whose tag is not a key
  of the type's schema, the whole load fails at once with the unknown-property-type error.
  And no document that has such an element or property in any of its views is accepted,
  in part or in whole: its load always fails.
\<close>

theorem schema_mismatch_fails:
  "(theme_root env1 path1 = Some root1 \<and> version_accepted env1 root1
      \<and> view_nodes root1 = vpre1 @ view1 # vpost1 \<and> list_all (view_ok env1 path1) vpre1
      \<and> attribute view1 ''name'' \<noteq> None
      \<and> children view1 = pre1 @ c1 # post1 \<and> list_all (element_ok env1 path1) pre1
      \<and> attribute c1 ''name'' \<noteq> None
      \<and> sElementMap (node_name c1) = None \<longrightarrow>
    fst (loadFile env1 this1 path1) =
      Throw (ThemeException (Some path1) (UnknownElementType (node_name c1))))
   \<and> (theme_root env2 path2 = Some root2 \<and> version_accepted env2 root2
      \<and> view_nodes root2 = vpre2 @ view2 # vpost2 \<and> list_all (view_ok env2 path2) vpre2
      \<and> attribute view2 ''name'' \<noteq> None
      \<and> children view2 = pre2 @ c2 # post2 \<and> list_all (element_ok env2 path2) pre2
      \<and> attribute c2 ''name'' \<noteq> None
      \<and> sElementMap (node_name c2) = Some typeMap
      \<and> children c2 = ppre @ q # ppost \<and> list_all (property_ok env2 path2 typeMap) ppre
      \<and> typeMap (node_name q) = None \<longrightarrow>
    fst (loadFile env2 this2 path2) =
      Throw (ThemeException (Some path2) (UnknownPropertyType (node_name q) (node_name c2))))
   \<and> (theme_root env3 path3 = Some root3 \<and> view3 \<in> set (view_nodes root3)
      \<and> c3 \<in> set (children view3) \<and> schema_mismatch c3 \<longrightarrow>
    (\<exists>ex. fst (loadFile env3 this3 path3) = Throw ex))"
proof (intro conjI impI)
  assume a: "theme_root env1 path1 = Some root1 \<and> version_accepted env1 root1
      \<and> view_nodes root1 = vpre1 @ view1 # vpost1 \<and> list_all (view_ok env1 path1) vpre1
      \<and> attribute view1 ''name'' \<noteq> None
      \<and> children view1 = pre1 @ c1 # post1 \<and> list_all (element_ok env1 path1) pre1
      \<and> attribute c1 ''name'' \<noteq> None
      \<and> sElementMap (node_name c1) = None"
  then obtain ver where load: "loadFile env1 this1 path1 =
      loadFile_views env1 \<lparr>mPath = path1, mVersion = ver, mViews = Mapping.empty\<rparr> path1
        (view_nodes root1)"
    using loadFile_accepted by blast
  from a have "parseView env1 path1 view1 =
      Throw (ThemeException (Some path1) (UnknownElementType (node_name c1)))"
    by (intro parseView_first_unknown [where pre = pre1 and post = post1]) simp_all
  with a show "fst (loadFile env1 this1 path1) =
      Throw (ThemeException (Some path1) (UnknownElementType (node_name c1)))"
    unfolding load
    by (intro loadFile_views_first_failure [where vpre = vpre1 and v = view1 and vpost = vpost1])
       simp_all
next
  assume a: "theme_root env2 path2 = Some root2 \<and> version_accepted env2 root2
      \<and> view_nodes root2 = vpre2 @ view2 # vpost2 \<and> list_all (view_ok env2 path2) vpre2
      \<and> attribute view2 ''name'' \<noteq> None
      \<and> children view2 = pre2 @ c2 # post2 \<and> list_all (element_ok env2 path2) pre2
      \<and> attribute c2 ''name'' \<noteq> None
      \<and> sElementMap (node_name c2) = Some typeMap
      \<and> children c2 = ppre @ q # ppost \<and> list_all (property_ok env2 path2 typeMap) ppre
      \<and> typeMap (node_name q) = None"
  then obtain ver where load: "loadFile env2 this2 path2 =
      loadFile_views env2 \<lparr>mPath = path2, mVersion = ver, mViews = Mapping.empty\<rparr> path2
        (view_nodes root2)"
    using loadFile_accepted by blast
  from a have "parseElement env2 path2 c2 typeMap =
      Throw (ThemeException (Some path2) (UnknownPropertyType (node_name q) (node_name c2)))"
    by (intro parseElement_first_unknown [where pre = ppre and post = ppost]) simp_all
  with a have "parseView env2 path2 view2 =
      Throw (ThemeException (Some path2) (UnknownPropertyType (node_name q) (node_name c2)))"
    by (intro parseView_first_failure [where pre = pre2 and post = post2 and c = c2
          and tm = typeMap]) simp_all
  with a show "fst (loadFile env2 this2 path2) =
      Throw (ThemeException (Some path2) (UnknownPropertyType (node_name q) (node_name c2)))"
    unfolding load
    by (intro loadFile_views_first_failure [where vpre = vpre2 and v = view2 and vpost = vpost2])
       simp_all
next
  assume "theme_root env3 path3 = Some root3 \<and> view3 \<in> set (view_nodes root3)
      \<and> c3 \<in> set (children view3) \<and> schema_mismatch c3"
  then show "\<exists>ex. fst (loadFile env3 this3 path3) = Throw ex"
    using loadFile_mismatch_fails by blast
qed

theorem schema_mismatch_fails_witness:
  "fst (loadFile (one_file (theme_doc ''3'' [basic_view, mixed_view bogus_element]))
          ThemeData_new theme_path) =
     Throw (ThemeException (Some theme_path) (UnknownElementType ''bogus''))
   \<and> fst (loadFile (one_file (theme_doc ''3'' [basic_view, mixed_view colour_element]))
          ThemeData_new theme_path) =
     Throw (ThemeException (Some theme_path) (UnknownPropertyType ''colour'' ''image''))
   \<and> (\<exists>ex. fst (loadFile (one_file (theme_doc ''3'' [mixed_view (Element ''bogus'' [] [])]))
          ThemeData_new theme_path) = Throw ex)"
proof -
  let ?docA = "theme_doc ''3'' [basic_view, mixed_view bogus_element]"
  let ?docB = "theme_doc ''3'' [basic_view, mixed_view colour_element]"
  let ?docC = "theme_doc ''3'' [mixed_view (Element ''bogus'' [] [])]"
  let ?tm = "the (sElementMap ''image'')"
  let ?q = "Element ''colour'' [] [PCData ''ff0000'']"
  have logo: "element_ok (one_file doc) theme_path logo_element" for doc
    by (simp add: platform_simps doc_simps parse_simps)
  have basic: "view_ok (one_file doc) theme_path basic_view" for doc
    by (simp add: platform_simps doc_simps parse_simps)
  have A: "theme_root (one_file ?docA) theme_path = Some (hd ?docA)
      \<and> version_accepted (one_file ?docA) (hd ?docA)
      \<and> view_nodes (hd ?docA) = [basic_view] @ mixed_view bogus_element # []
      \<and> list_all (view_ok (one_file ?docA) theme_path) [basic_view]
      \<and> attribute (mixed_view bogus_element) ''name'' \<noteq> None
      \<and> children (mixed_view bogus_element) = [logo_element] @ bogus_element # []
      \<and> list_all (element_ok (one_file ?docA) theme_path) [logo_element]
      \<and> attribute bogus_element ''name'' \<noteq> None
      \<and> sElementMap (node_name bogus_element) = None"
    by (simp add: logo basic)
       (simp add: platform_simps doc_simps version_accepted_def MINIMUM_THEME_VERSION_def
         mixed_view_def bogus_element_def sElementMap_def)
  have B: "theme_root (one_file ?docB) theme_path = Some (hd ?docB)
      \<and> version_accepted (one_file ?docB) (hd ?docB)
      \<and> view_nodes (hd ?docB) = [basic_view] @ mixed_view colour_element # []
      \<and> list_all (view_ok (one_file ?docB) theme_path) [basic_view]
      \<and> attribute (mixed_view colour_element) ''name'' \<noteq> None
      \<and> children (mixed_view colour_element) = [logo_element] @ colour_element # []
      \<and> list_all (element_ok (one_file ?docB) theme_path) [logo_element]
      \<and> attribute colour_element ''name'' \<noteq> None
      \<and> sElementMap (node_name colour_element) = Some ?tm
      \<and> children colour_element = [pair_node ''0.5 0.25''] @ ?q # []
      \<and> list_all (property_ok (one_file ?docB) theme_path ?tm) [pair_node ''0.5 0.25'']
      \<and> ?tm (node_name ?q) = None"
    by (simp add: logo basic)
       (simp add: platform_simps doc_simps version_accepted_def MINIMUM_THEME_VERSION_def
         mixed_view_def colour_element_def sElementMap_def pair_node_def property_ok_def
         parseProperty_def as_string_def str_find_def)
  have C: "theme_root (one_file ?docC) theme_path = Some (hd ?docC)
      \<and> mixed_view (Element ''bogus'' [] []) \<in> set (view_nodes (hd ?docC))
      \<and> Element ''bogus'' [] [] \<in> set (children (mixed_view (Element ''bogus'' [] [])))
      \<and> schema_mismatch (Element ''bogus'' [] [])"
    by (simp add: platform_simps doc_simps mixed_view_def schema_mismatch_def sElementMap_def)
  have names: "node_name bogus_element = ''bogus''" "node_name colour_element = ''image''"
    "node_name ?q = ''colour''"
    by (simp_all add: bogus_element_def colour_element_def)
  show ?thesis
    using schema_mismatch_fails [of "one_file ?docA" theme_path "hd ?docA" "[basic_view]"
        "mixed_view bogus_element" "[]" "[logo_element]" bogus_element "[]" ThemeData_new
        "one_file ?docB" theme_path "hd ?docB" "[basic_view]"
        "mixed_view colour_element" "[]" "[logo_element]" colour_element "[]" ?tm
        "[pair_node ''0.5 0.25'']" ?q "[]" ThemeData_new
        "one_file ?docC" theme_path "hd ?docC" "mixed_view (Element ''bogus'' [] [])"
        "Element ''bogus'' [] []" ThemeData_new]
      A B C names
    by simp
qed

text \<open>
  Claim C6 as stated fails for an element child without a name attribute: its tag is not an
  element type, and the load fails with the missing-name error, not with the
  unknown-element-type error.
\<close>

theorem unknown_element_counterexample:
  "sElementMap (node_name nameless_bogus) = None
   \<and> fst (loadFile (one_file (theme_doc ''3'' [mixed_view nameless_bogus])) ThemeData_new
          theme_path) =
       Throw (ThemeException (Some theme_path) (ElementMissingName ''bogus''))
   \<and> fst (loadFile (one_file (theme_doc ''3'' [mixed_view nameless_bogus])) ThemeData_new
          theme_path) \<noteq>
       Throw (ThemeException (Some theme_path) (UnknownElementType ''bogus''))"
  by (simp add: loadFile_def platform_simps doc_simps parse_simps mixed_view_def
      nameless_bogus_def)

end
